theory Spec2Isabelle
  imports Complex_Main "HOL-Library.AList"
begin

section \<open>Python values, errors and the operations the formatter uses\<close>

text \<open>
  The formatter of \<^verbatim>\<open>newsroom/agenda/formatters/ical_formatter.py\<close> reads one agenda
  item, a nested Python dictionary as it comes out of the database or of JSON. The
  values are modelled by one datatype. A dictionary is an association list with string
  keys in which the first binding of a key is the one that counts; a datetime is kept
  as an opaque number; a float is a real number (the formatter does no arithmetic).
\<close>

datatype pyval =
    PNone
  | PBool bool
  | PInt int
  | PFloat real
  | PStr string
  | PDatetime int
  | PTuple "pyval list"
  | PList "pyval list"
  | PDict "(string \<times> pyval) list"

text \<open>
  The exceptions that the formatter's own statements can raise: \<^verbatim>\<open>d[k]\<close> on a
  dictionary without \<^verbatim>\<open>k\<close> raises \<^verbatim>\<open>KeyError\<close>; \<^verbatim>\<open>x[k]\<close>, iteration and
  \<^verbatim>\<open>str.join\<close> on a value of the wrong type raise \<^verbatim>\<open>TypeError\<close>; \<^verbatim>\<open>x.get\<close> on a
  value that is not a dictionary raises \<^verbatim>\<open>AttributeError\<close>.
\<close>

datatype py_error = KeyError string | TypeError | AttributeError

fun bind_result :: "py_error + 'a \<Rightarrow> ('a \<Rightarrow> py_error + 'b) \<Rightarrow> py_error + 'b" where
  "bind_result (Inl e) f = Inl e"
| "bind_result (Inr x) f = f x"

text \<open>Truth value testing, as \<^verbatim>\<open>if x:\<close> and \<^verbatim>\<open>filter(None, ...)\<close> do it.\<close>

fun py_truthy :: "pyval \<Rightarrow> bool" where
  "py_truthy PNone = False"
| "py_truthy (PBool b) = b"
| "py_truthy (PInt i) = (i \<noteq> 0)"
| "py_truthy (PFloat r) = (r \<noteq> 0)"
| "py_truthy (PStr s) = (s \<noteq> [])"
| "py_truthy (PDatetime t) = True"
| "py_truthy (PTuple xs) = (xs \<noteq> [])"
| "py_truthy (PList xs) = (xs \<noteq> [])"
| "py_truthy (PDict kvs) = (kvs \<noteq> [])"

text \<open>\<^verbatim>\<open>d.get(k, default)\<close> and \<^verbatim>\<open>d.get(k)\<close>.\<close>

fun py_get_default :: "pyval \<Rightarrow> string \<Rightarrow> pyval \<Rightarrow> py_error + pyval" where
  "py_get_default (PDict kvs) k dflt =
     Inr (case map_of kvs k of None \<Rightarrow> dflt | Some v \<Rightarrow> v)"
| "py_get_default other k dflt = Inl AttributeError"

definition py_get :: "pyval \<Rightarrow> string \<Rightarrow> py_error + pyval" where
  "py_get d k = py_get_default d k PNone"

text \<open>\<^verbatim>\<open>d[k]\<close> with a string key \<^verbatim>\<open>k\<close>.\<close>

fun py_index :: "pyval \<Rightarrow> string \<Rightarrow> py_error + pyval" where
  "py_index (PDict kvs) k =
     (case map_of kvs k of None \<Rightarrow> Inl (KeyError k) | Some v \<Rightarrow> Inr v)"
| "py_index other k = Inl TypeError"

text \<open>
  The elements a \<^verbatim>\<open>for\<close> loop runs over: the elements of a list or tuple, the keys of
  a dictionary, the characters of a string; any other value is not iterable.
\<close>

fun py_iter :: "pyval \<Rightarrow> py_error + pyval list" where
  "py_iter (PList xs) = Inr xs"
| "py_iter (PTuple xs) = Inr xs"
| "py_iter (PDict kvs) = Inr (map PStr (remdups (map fst kvs)))"
| "py_iter (PStr s) = Inr (map (\<lambda>c. PStr [c]) s)"
| "py_iter other = Inl TypeError"

text \<open>A \<^verbatim>\<open>for\<close> loop whose body may raise: the first exception ends the loop.\<close>

fun for_each :: "('s \<Rightarrow> 'a \<Rightarrow> py_error + 's) \<Rightarrow> 's \<Rightarrow> 'a list \<Rightarrow> py_error + 's" where
  "for_each body s [] = Inr s"
| "for_each body s (x # xs) = bind_result (body s x) (\<lambda>s'. for_each body s' xs)"

text \<open>
  \<^verbatim>\<open>try: ... except KeyError: pass\<close> around a block that updates \<^verbatim>\<open>s\<close> only in its
  last statement: a \<^verbatim>\<open>KeyError\<close> leaves \<^verbatim>\<open>s\<close> as it was, any other exception goes on.
\<close>

fun except_KeyError_pass :: "py_error + 's \<Rightarrow> 's \<Rightarrow> py_error + 's" where
  "except_KeyError_pass (Inl (KeyError k)) s = Inr s"
| "except_KeyError_pass (Inl e) s = Inl e"
| "except_KeyError_pass (Inr s') s = Inr s'"

text \<open>
  \<^verbatim>\<open>sep.join(xs)\<close>: every element has to be a string.
\<close>

fun str_join :: "string \<Rightarrow> pyval list \<Rightarrow> py_error + string" where
  "str_join sep [] = Inr []"
| "str_join sep [PStr s] = Inr s"
| "str_join sep (PStr s # x # xs) =
     bind_result (str_join sep (x # xs)) (\<lambda>r. Inr (s @ sep @ r))"
| "str_join sep (other # xs) = Inl TypeError"

section \<open>The calendar components of the icalendar library\<close>

text \<open>
  \<^verbatim>\<open>icalendar.Calendar()\<close> and \<^verbatim>\<open>icalendar.Event()\<close> are components: a name, the
  properties and the subcomponents. \<^verbatim>\<open>add\<close> appends a value under a property name
  (a second \<^verbatim>\<open>add\<close> of a name keeps the first value and appends the new one),
  \<^verbatim>\<open>c[name] = v\<close> sets it. The library's encoding of the values and its serialisation
  \<^verbatim>\<open>to_ical\<close> are not part of this repository: a property keeps the value it was
  given and the name the source gives it (the library reads names without regard to
  case), \<^verbatim>\<open>add\<close> does not raise, and \<^verbatim>\<open>to_ical\<close> is a parameter.
\<close>

datatype component =
  Component (comp_name: string) (properties: "(string \<times> pyval) list")
    (subcomponents: "component list")

definition Calendar :: component where
  "Calendar = Component ''VCALENDAR'' [] []"

definition Event :: component where
  "Event = Component ''VEVENT'' [] []"

fun comp_add :: "component \<Rightarrow> string \<Rightarrow> pyval \<Rightarrow> component" where
  "comp_add (Component n ps cs) k v = Component n (ps @ [(k, v)]) cs"

fun comp_set :: "component \<Rightarrow> string \<Rightarrow> pyval \<Rightarrow> component" where
  "comp_set (Component n ps cs) k v = Component n (AList.update k v ps) cs"

fun add_component :: "component \<Rightarrow> component \<Rightarrow> component" where
  "add_component (Component n ps cs) c = Component n ps (cs @ [c])"

text \<open>
  What the formatter takes from outside: the clock \<^verbatim>\<open>superdesk.utc.utcnow\<close>, Flask's
  \<^verbatim>\<open>url_for('upload.get_upload', media_id=..., _external=True)\<close>, the two contact
  helpers of \<^verbatim>\<open>newsroom.agenda.contacts\<close>, and the library's \<^verbatim>\<open>to_ical\<close>.
\<close>

record 'b collaborators =
  utcnow :: pyval
  url_for :: "pyval \<Rightarrow> pyval"
  get_contact_name :: "pyval \<Rightarrow> pyval"
  get_contact_email :: "pyval \<Rightarrow> pyval"
  to_ical :: "component \<Rightarrow> 'b"

section \<open>The formatter\<close>

text \<open>
  The functions below follow \<^verbatim>\<open>ical_formatter.py\<close> statement by statement; every
  exception of the source is a result \<open>Inl\<close>. \<^verbatim>\<open>format_filename\<close> and the argument
  \<^verbatim>\<open>item_type\<close> of \<^verbatim>\<open>format_item\<close>, which the method does not read, are left out.
\<close>

text \<open>
  \<^verbatim>\<open>if d.get(key): kwargs[key] = d[key]\<close>, the statement \<^verbatim>\<open>get_rrule_kwargs\<close> runs for
  \<^verbatim>\<open>count\<close>, \<^verbatim>\<open>interval\<close> and \<^verbatim>\<open>until\<close>.
\<close>

definition copy_if_truthy ::
  "pyval \<Rightarrow> string \<Rightarrow> (string \<times> pyval) list \<Rightarrow> py_error + (string \<times> pyval) list" where
  "copy_if_truthy d key kwargs =
     bind_result (py_get d key) (\<lambda>t.
       if py_truthy t
       then bind_result (py_index d key) (\<lambda>v. Inr (AList.update key v kwargs))
       else Inr kwargs)"

definition get_rrule_kwargs :: "pyval \<Rightarrow> py_error + (string \<times> pyval) list" where
  "get_rrule_kwargs rrule =
     bind_result (py_index rrule ''frequency'') (\<lambda>f.
     bind_result (copy_if_truthy rrule ''count'' [(''freq'', f)]) (\<lambda>kwargs.
     bind_result (copy_if_truthy rrule ''interval'' kwargs) (\<lambda>kwargs.
     copy_if_truthy rrule ''until'' kwargs)))"

text \<open>
  \<^verbatim>\<open>item.get('guid', item.get('event', {}).get('guid', item.get('_id')))\<close>: the
  arguments are evaluated before the call they belong to.
\<close>

definition guid :: "pyval \<Rightarrow> py_error + pyval" where
  "guid item =
     bind_result (py_get_default item ''event'' (PDict [])) (\<lambda>event.
     bind_result (py_get item ''_id'') (\<lambda>pk.
     bind_result (py_get_default event ''guid'' pk) (\<lambda>inner.
     py_get_default item ''guid'' inner)))"

text \<open>\<^verbatim>\<open>if d.get(key): event.add(prop, d[key])\<close>.\<close>

definition add_if_truthy ::
  "component \<Rightarrow> pyval \<Rightarrow> string \<Rightarrow> string \<Rightarrow> py_error + component" where
  "add_if_truthy event d key prop =
     bind_result (py_get d key) (\<lambda>t.
       if py_truthy t
       then bind_result (py_index d key) (\<lambda>v. Inr (comp_add event prop v))
       else Inr event)"

text \<open>Lines 47 to 53: summary, description, comment and priority.\<close>

definition add_description :: "component \<Rightarrow> pyval \<Rightarrow> py_error + component" where
  "add_description event item =
     bind_result (py_index item ''name'') (\<lambda>name.
     bind_result (add_if_truthy (comp_add event ''summary'' name) item
                    ''definition_long'' ''description'') (\<lambda>event.
     bind_result (add_if_truthy event item ''ednote'' ''comment'') (\<lambda>event.
     add_if_truthy event item ''priority'' ''priority'')))"

text \<open>Lines 56 to 58: one category for each calendar with a name.\<close>

definition add_categories :: "component \<Rightarrow> pyval \<Rightarrow> py_error + component" where
  "add_categories event item =
     bind_result (py_get_default item ''calendars'' (PList [])) (\<lambda>calendars.
     bind_result (py_iter calendars) (\<lambda>cs.
     for_each (\<lambda>event calendar. add_if_truthy event calendar ''name'' ''categories'')
       event cs))"

text \<open>Lines 61 to 64: start and end.\<close>

definition add_dates :: "component \<Rightarrow> pyval \<Rightarrow> py_error + component" where
  "add_dates event item =
     bind_result (py_get_default item ''dates'' (PDict [])) (\<lambda>dates.
     bind_result (py_index dates ''start'') (\<lambda>start.
     add_if_truthy (comp_add event ''dtstart'' start) dates ''end'' ''dtend''))"

text \<open>Lines 65 to 69: the recurrence rule, inside \<^verbatim>\<open>try ... except KeyError: pass\<close>.\<close>

definition add_rrule :: "component \<Rightarrow> pyval \<Rightarrow> py_error + component" where
  "add_rrule event item =
     except_KeyError_pass
       (bind_result (py_index item ''event'') (\<lambda>e.
        bind_result (py_index e ''dates'') (\<lambda>d.
        bind_result (py_index d ''recurring_rule'') (\<lambda>rrule.
        bind_result (get_rrule_kwargs rrule) (\<lambda>kwargs.
        Inr (comp_add event ''rrule'' (PDict kwargs)))))))
       event"

text \<open>Lines 72 to 75: one attachment for each file with a media reference.\<close>

definition add_attachment ::
  "'b collaborators \<Rightarrow> component \<Rightarrow> pyval \<Rightarrow> py_error + component" where
  "add_attachment env event media =
     bind_result (py_get media ''media'') (\<lambda>t.
       if py_truthy t
       then bind_result (py_index media ''media'') (\<lambda>m.
              Inr (comp_add event ''attach'' (url_for env m)))
       else Inr event)"

definition add_attachments ::
  "'b collaborators \<Rightarrow> component \<Rightarrow> pyval \<Rightarrow> py_error + component" where
  "add_attachments env event item =
     bind_result (py_get_default item ''event'' (PDict [])) (\<lambda>e.
     bind_result (py_get_default e ''files'' (PList [])) (\<lambda>files.
     bind_result (py_iter files) (\<lambda>fs.
     for_each (add_attachment env) event fs)))"

text \<open>
  Lines 78 to 85: for each location its name, then its coordinates inside
  \<^verbatim>\<open>try ... except KeyError: pass\<close>.
\<close>

definition add_location :: "component \<Rightarrow> pyval \<Rightarrow> py_error + component" where
  "add_location event loc =
     bind_result (add_if_truthy event loc ''name'' ''location'') (\<lambda>event.
     except_KeyError_pass
       (bind_result (py_index loc ''location'') (\<lambda>l1.
        bind_result (py_index l1 ''lat'') (\<lambda>lat.
        bind_result (py_index loc ''location'') (\<lambda>l2.
        bind_result (py_index l2 ''lon'') (\<lambda>lon.
        Inr (comp_add event ''geo'' (PTuple [lat, lon])))))))
       event)"

definition add_geo :: "component \<Rightarrow> pyval \<Rightarrow> py_error + component" where
  "add_geo event item =
     bind_result (py_get item ''location'') (\<lambda>t.
       if py_truthy t
       then bind_result (py_index item ''location'') (\<lambda>locations.
            bind_result (py_iter locations) (\<lambda>ls.
            for_each add_location event ls))
       else Inr event)"

text \<open>Lines 88 and 89: one URL for each link.\<close>

definition add_links :: "component \<Rightarrow> pyval \<Rightarrow> py_error + component" where
  "add_links event item =
     bind_result (py_get_default item ''event'' (PDict [])) (\<lambda>e.
     bind_result (py_get_default e ''links'' (PList [])) (\<lambda>links.
     bind_result (py_iter links) (\<lambda>ls.
     for_each (\<lambda>event link. Inr (comp_add event ''url'' link)) event ls)))"

text \<open>
  Lines 94 to 98, the value of a contact property:
  \<^verbatim>\<open>', '.join(filter(None, [get_contact_name(contact), contact.get('organisation'),
  get_contact_email(contact)]))\<close>.
\<close>

definition format_contact :: "'b collaborators \<Rightarrow> pyval \<Rightarrow> py_error + pyval" where
  "format_contact env contact =
     bind_result (py_get contact ''organisation'') (\<lambda>organisation.
     bind_result
       (str_join '', ''
          (filter py_truthy
             [get_contact_name env contact, organisation, get_contact_email env contact]))
       (\<lambda>s. Inr (PStr s)))"

text \<open>Lines 92 to 98: one contact property for each public contact.\<close>

definition add_contact ::
  "'b collaborators \<Rightarrow> component \<Rightarrow> pyval \<Rightarrow> py_error + component" where
  "add_contact env event contact =
     bind_result (py_get contact ''public'') (\<lambda>t.
       if py_truthy t
       then bind_result (format_contact env contact) (\<lambda>s.
              Inr (comp_add event ''contact'' s))
       else Inr event)"

definition add_contacts ::
  "'b collaborators \<Rightarrow> component \<Rightarrow> pyval \<Rightarrow> py_error + component" where
  "add_contacts env event item =
     bind_result (py_get_default item ''event'' (PDict [])) (\<lambda>e.
     bind_result (py_get e ''event_contact_info'') (\<lambda>info.
     bind_result (py_iter info) (\<lambda>contacts.
     for_each (add_contact env) event contacts)))"

text \<open>\<^verbatim>\<open>iCalFormatter.format_event\<close>, lines 41 to 100.\<close>

definition format_event :: "'b collaborators \<Rightarrow> pyval \<Rightarrow> py_error + component" where
  "format_event env item =
     bind_result (guid item) (\<lambda>g.
     bind_result
       (add_description (comp_add (comp_add Event ''uid'' g) ''dtstamp'' (utcnow env)) item)
       (\<lambda>event.
     bind_result (add_categories event item) (\<lambda>event.
     bind_result (add_dates event item) (\<lambda>event.
     bind_result (add_rrule event item) (\<lambda>event.
     bind_result (add_attachments env event item) (\<lambda>event.
     bind_result (add_geo event item) (\<lambda>event.
     bind_result (add_links event item) (\<lambda>event.
     add_contacts env event item))))))))"

text \<open>
  \<^verbatim>\<open>iCalFormatter.format_item\<close>, lines 34 to 39. \<^verbatim>\<open>calendar_of_item\<close> is the calendar
  that is handed to \<^verbatim>\<open>to_ical\<close>.
\<close>

definition VERSION :: string where
  "VERSION = ''2.0''"

definition PRODID :: string where
  "PRODID = ''Newshub''"

definition calendar_of_item :: "'b collaborators \<Rightarrow> pyval \<Rightarrow> py_error + component" where
  "calendar_of_item env item =
     bind_result (format_event env item) (\<lambda>event.
     Inr (add_component
            (comp_set (comp_set Calendar ''version'' (PStr VERSION)) ''prodid'' (PStr PRODID))
            event))"

definition format_item :: "'b collaborators \<Rightarrow> pyval \<Rightarrow> py_error + 'b" where
  "format_item env item =
     bind_result (calendar_of_item env item) (\<lambda>cal. Inr (to_ical env cal))"

section \<open>Notions used in the statements\<close>

subsection \<open>Lookups\<close>

text \<open>
  \<open>get_or kvs k dflt\<close> is the value that \<^verbatim>\<open>d.get(k, dflt)\<close> returns for the dictionary
  with the fields \<open>kvs\<close>. \<open>truthy_field kvs k\<close> is the value of a field that is present and
  true in the sense of \<^verbatim>\<open>if d.get(k):\<close>; it is \<open>None\<close> for a field that is absent,
  \<^verbatim>\<open>None\<close>, zero, false or empty.
\<close>

definition get_or :: "(string \<times> pyval) list \<Rightarrow> string \<Rightarrow> pyval \<Rightarrow> pyval" where
  "get_or kvs k dflt = (case map_of kvs k of None \<Rightarrow> dflt | Some v \<Rightarrow> v)"

definition truthy_field :: "(string \<times> pyval) list \<Rightarrow> string \<Rightarrow> pyval option" where
  "truthy_field kvs k =
     (case map_of kvs k of None \<Rightarrow> None | Some v \<Rightarrow> if py_truthy v then Some v else None)"

text \<open>
  The fields of a dictionary (none for any other value), and the elements a loop runs
  over (none when the value is not iterable).
\<close>

fun is_dict :: "pyval \<Rightarrow> bool" where
  "is_dict (PDict kvs) = True"
| "is_dict other = False"

fun fields_of :: "pyval \<Rightarrow> (string \<times> pyval) list" where
  "fields_of (PDict kvs) = kvs"
| "fields_of other = []"

definition elements :: "pyval \<Rightarrow> pyval list" where
  "elements v = (case py_iter v of Inl e \<Rightarrow> [] | Inr xs \<Rightarrow> xs)"

text \<open>
  The fields under \<^verbatim>\<open>event\<close> and under \<^verbatim>\<open>dates\<close>, as \<^verbatim>\<open>item.get('event', {})\<close> and
  \<^verbatim>\<open>item.get('dates', {})\<close> give them: empty when the key is absent.
\<close>

definition event_fields :: "(string \<times> pyval) list \<Rightarrow> (string \<times> pyval) list" where
  "event_fields kvs = fields_of (get_or kvs ''event'' (PDict []))"

definition dates_fields :: "(string \<times> pyval) list \<Rightarrow> (string \<times> pyval) list" where
  "dates_fields kvs = fields_of (get_or kvs ''dates'' (PDict []))"

subsection \<open>The properties that each statement of the formatter adds\<close>

text \<open>
  A component with further properties appended, and the property that a guarded
  \<^verbatim>\<open>event.add\<close> contributes: one or none.
\<close>

definition comp_extend :: "component \<Rightarrow> (string \<times> pyval) list \<Rightarrow> component" where
  "comp_extend c new = Component (comp_name c) (properties c @ new) (subcomponents c)"

definition opt_prop ::
  "(string \<times> pyval) list \<Rightarrow> string \<Rightarrow> string \<Rightarrow> (string \<times> pyval) list" where
  "opt_prop kvs key prop = (case truthy_field kvs key of None \<Rightarrow> [] | Some v \<Rightarrow> [(prop, v)])"

text \<open>
  For each group of statements of \<^verbatim>\<open>format_event\<close>, the properties it appends when it
  does not raise. The lemmas below show that a successful run appends exactly these.
\<close>

definition description_props :: "(string \<times> pyval) list \<Rightarrow> (string \<times> pyval) list" where
  "description_props kvs =
     opt_prop kvs ''definition_long'' ''description'' @ opt_prop kvs ''ednote'' ''comment''
       @ opt_prop kvs ''priority'' ''priority''"

definition category_props :: "pyval \<Rightarrow> (string \<times> pyval) list" where
  "category_props calendar = opt_prop (fields_of calendar) ''name'' ''categories''"

definition categories_props :: "(string \<times> pyval) list \<Rightarrow> (string \<times> pyval) list" where
  "categories_props kvs =
     concat (map category_props (elements (get_or kvs ''calendars'' (PList []))))"

definition rrule_source :: "(string \<times> pyval) list \<Rightarrow> pyval option" where
  "rrule_source kvs =
     (case map_of kvs ''event'' of
        Some (PDict e) \<Rightarrow>
          (case map_of e ''dates'' of
             Some (PDict d) \<Rightarrow> map_of d ''recurring_rule''
           | _ \<Rightarrow> None)
      | _ \<Rightarrow> None)"

definition rrule_props :: "(string \<times> pyval) list \<Rightarrow> (string \<times> pyval) list" where
  "rrule_props kvs =
     (case rrule_source kvs of
        None \<Rightarrow> []
      | Some r \<Rightarrow> (case get_rrule_kwargs r of Inl e \<Rightarrow> [] | Inr kw \<Rightarrow> [(''rrule'', PDict kw)]))"

definition attachment_props :: "'b collaborators \<Rightarrow> pyval \<Rightarrow> (string \<times> pyval) list" where
  "attachment_props env media =
     (case truthy_field (fields_of media) ''media'' of
        None \<Rightarrow> [] | Some m \<Rightarrow> [(''attach'', url_for env m)])"

definition attachments_props :: "'b collaborators \<Rightarrow> (string \<times> pyval) list \<Rightarrow> (string \<times> pyval) list" where
  "attachments_props env kvs =
     concat (map (attachment_props env) (elements (get_or (event_fields kvs) ''files'' (PList []))))"

definition geo_props :: "pyval \<Rightarrow> (string \<times> pyval) list" where
  "geo_props loc =
     (case map_of (fields_of loc) ''location'' of
        Some (PDict c) \<Rightarrow>
          (case map_of c ''lat'' of
             None \<Rightarrow> []
           | Some lat \<Rightarrow>
               (case map_of c ''lon'' of
                  None \<Rightarrow> []
                | Some lon \<Rightarrow> [(''geo'', PTuple [lat, lon])]))
      | _ \<Rightarrow> [])"

definition location_props :: "pyval \<Rightarrow> (string \<times> pyval) list" where
  "location_props loc = opt_prop (fields_of loc) ''name'' ''location'' @ geo_props loc"

definition locations_props :: "(string \<times> pyval) list \<Rightarrow> (string \<times> pyval) list" where
  "locations_props kvs =
     (case truthy_field kvs ''location'' of
        None \<Rightarrow> []
      | Some locations \<Rightarrow> concat (map location_props (elements locations)))"

definition links_props :: "(string \<times> pyval) list \<Rightarrow> (string \<times> pyval) list" where
  "links_props kvs = map (Pair ''url'') (elements (get_or (event_fields kvs) ''links'' (PList [])))"

definition contact_props :: "'b collaborators \<Rightarrow> pyval \<Rightarrow> (string \<times> pyval) list" where
  "contact_props env contact =
     (case truthy_field (fields_of contact) ''public'' of
        None \<Rightarrow> []
      | Some p \<Rightarrow> (case format_contact env contact of Inl e \<Rightarrow> [] | Inr s \<Rightarrow> [(''contact'', s)]))"

definition contacts_props :: "'b collaborators \<Rightarrow> (string \<times> pyval) list \<Rightarrow> (string \<times> pyval) list" where
  "contacts_props env kvs =
     concat (map (contact_props env)
       (elements (get_or (event_fields kvs) ''event_contact_info'' PNone)))"

text \<open>
  All properties of the event, in the order of the source; \<open>g\<close> is the identifier,
  \<open>n\<close> the name and \<open>s\<close> the start. \<open>prefix_props\<close> are the properties before the
  contacts step.
\<close>

definition event_props ::
  "'b collaborators \<Rightarrow> (string \<times> pyval) list \<Rightarrow> pyval \<Rightarrow> pyval \<Rightarrow> pyval \<Rightarrow> (string \<times> pyval) list" where
  "event_props env kvs g n s =
     [(''uid'', g), (''dtstamp'', utcnow env), (''summary'', n)] @ description_props kvs
       @ categories_props kvs
       @ [(''dtstart'', s)] @ opt_prop (dates_fields kvs) ''end'' ''dtend''
       @ rrule_props kvs
       @ attachments_props env kvs
       @ locations_props kvs
       @ links_props kvs
       @ contacts_props env kvs"

definition prefix_props ::
  "'b collaborators \<Rightarrow> (string \<times> pyval) list \<Rightarrow> pyval \<Rightarrow> pyval \<Rightarrow> pyval \<Rightarrow> (string \<times> pyval) list" where
  "prefix_props env kvs g n s =
     [(''uid'', g), (''dtstamp'', utcnow env), (''summary'', n)] @ description_props kvs
       @ categories_props kvs
       @ [(''dtstart'', s)] @ opt_prop (dates_fields kvs) ''end'' ''dtend''
       @ rrule_props kvs
       @ attachments_props env kvs
       @ locations_props kvs
       @ links_props kvs"

subsection \<open>Records typed as the data model has them\<close>

text \<open>
  The types that the fields read before the contacts step have in the data model:
  \<^verbatim>\<open>calendars\<close> a list of mappings, \<^verbatim>\<open>dates\<close> a mapping, \<^verbatim>\<open>location\<close> a list of mappings
  whose \<^verbatim>\<open>location\<close> is a mapping, \<^verbatim>\<open>event\<close> a mapping with \<^verbatim>\<open>dates\<close> a mapping,
  \<^verbatim>\<open>dates.recurring_rule\<close> a mapping, \<^verbatim>\<open>files\<close> a list of mappings and \<^verbatim>\<open>links\<close> a list;
  each of them may be absent. Nothing is asked of \<^verbatim>\<open>name\<close>, \<^verbatim>\<open>dates.start\<close> or
  \<^verbatim>\<open>event_contact_info\<close>.
\<close>

definition list_of :: "(pyval \<Rightarrow> bool) \<Rightarrow> pyval \<Rightarrow> bool" where
  "list_of P v = (case v of PList xs \<Rightarrow> list_all P xs | other \<Rightarrow> False)"

definition location_ok :: "pyval \<Rightarrow> bool" where
  "location_ok loc \<longleftrightarrow>
     is_dict loc \<and>
     (case map_of (fields_of loc) ''location'' of None \<Rightarrow> True | Some c \<Rightarrow> is_dict c)"

definition event_ok :: "(string \<times> pyval) list \<Rightarrow> bool" where
  "event_ok e \<longleftrightarrow>
     is_dict (get_or e ''dates'' (PDict [])) \<and>
     is_dict (get_or (fields_of (get_or e ''dates'' (PDict []))) ''recurring_rule'' (PDict [])) \<and>
     list_of is_dict (get_or e ''files'' (PList [])) \<and>
     list_of (\<lambda>link. True) (get_or e ''links'' (PList []))"

definition well_typed :: "(string \<times> pyval) list \<Rightarrow> bool" where
  "well_typed kvs \<longleftrightarrow>
     list_of is_dict (get_or kvs ''calendars'' (PList [])) \<and>
     is_dict (get_or kvs ''dates'' (PDict [])) \<and>
     list_of location_ok (get_or kvs ''location'' (PList [])) \<and>
     is_dict (get_or kvs ''event'' (PDict [])) \<and>
     event_ok (event_fields kvs)"

subsection \<open>The contact line in the words of the specification\<close>


fun part_text :: "pyval \<Rightarrow> string" where
  "part_text (PStr s) = s"
| "part_text other = []"


subsection \<open>Example records\<close>

text \<open>
  Collaborators for the examples: a fixed clock, an upload URL made of the media
  reference, contact helpers that read the fields \<^verbatim>\<open>name\<close> and \<^verbatim>\<open>email\<close> of the contact
  (\<^verbatim>\<open>None\<close> when absent), and the identity in place of the serialisation.
\<close>

definition example_collaborators :: "component collaborators" where
  "example_collaborators =
     \<lparr>utcnow = PDatetime 1500000000,
      url_for = (\<lambda>media_id. PStr (''https://newshub.example/assets/'' @ part_text media_id)),
      get_contact_name = (\<lambda>contact. get_or (fields_of contact) ''name'' PNone),
      get_contact_email = (\<lambda>contact. get_or (fields_of contact) ''email'' PNone),
      to_ical = (\<lambda>cal. cal)\<rparr>"

text \<open>
  A record with the required fields only.
\<close>

definition minimal_item :: pyval where
  "minimal_item =
     PDict [(''_id'', PStr ''urn:event:1''), (''name'', PStr ''Press conference''),
            (''dates'', PDict [(''start'', PDatetime 1500003600)]),
            (''event'', PDict [(''event_contact_info'', PList [])])]"

text \<open>
  A record with every optional field; its \<^verbatim>\<open>ednote\<close> is empty, its \<^verbatim>\<open>priority\<close> is 0,
  one calendar has no name, one file has no media, one link is empty and one public
  contact has nothing but its flag. \<open>example_event\<close> is the event that \<^verbatim>\<open>format_event\<close>
  builds from it.
\<close>

definition example_fields :: "(string \<times> pyval) list" where
  "example_fields =
     [(''guid'', PStr ''urn:event:3''),
      (''name'', PStr ''Council meeting''),
      (''definition_long'', PStr ''Monthly meeting of the council''),
      (''ednote'', PStr ''''),
      (''priority'', PInt 0),
      (''calendars'', PList [PDict [(''name'', PStr ''Politics'')], PDict [(''name'', PStr '''')]]),
      (''dates'', PDict [(''start'', PDatetime 1500003600), (''end'', PDatetime 1500007200)]),
      (''location'', PList [PDict [(''name'', PStr ''Town hall''),
                                   (''location'', PDict [(''lat'', PFloat 50), (''lon'', PFloat 14)])]]),
      (''event'',
         PDict [(''dates'', PDict [(''recurring_rule'',
                   PDict [(''frequency'', PStr ''MONTHLY''), (''count'', PInt 12), (''until'', PNone)])]),
                (''files'', PList [PDict [(''media'', PStr ''5d0a'')], PDict [(''name'', PStr ''agenda.pdf'')]]),
                (''links'', PList [PStr ''https://example.org/council'', PStr '''']),
                (''event_contact_info'',
                   PList [PDict [(''public'', PBool True), (''name'', PStr ''Jane Doe''),
                                 (''organisation'', PStr ''''), (''email'', PStr ''jane@x.com'')],
                          PDict [(''public'', PBool False), (''name'', PStr ''John Roe'')],
                          PDict [(''public'', PBool True)]])])]"

definition example_event :: component where
  "example_event =
     Component ''VEVENT''
       [(''uid'', PStr ''urn:event:3''),
        (''dtstamp'', PDatetime 1500000000),
        (''summary'', PStr ''Council meeting''),
        (''description'', PStr ''Monthly meeting of the council''),
        (''categories'', PStr ''Politics''),
        (''dtstart'', PDatetime 1500003600),
        (''dtend'', PDatetime 1500007200),
        (''rrule'', PDict [(''freq'', PStr ''MONTHLY''), (''count'', PInt 12)]),
        (''attach'', PStr ''https://newshub.example/assets/5d0a''),
        (''location'', PStr ''Town hall''),
        (''geo'', PTuple [PFloat 50, PFloat 14]),
        (''url'', PStr ''https://example.org/council''), (''url'', PStr []),
        (''contact'', PStr ''Jane Doe, jane@x.com''),
        (''contact'', PStr [])]
       []"

section \<open>Basic facts\<close>

lemma bind_result_Inr_iff:
  "bind_result m f = Inr y \<longleftrightarrow> (\<exists>x. m = Inr x \<and> f x = Inr y)"
  by (cases m) auto

lemma is_dict_conv: "is_dict d \<longleftrightarrow> (\<exists>kvs. d = PDict kvs)"
  by (cases d) auto

lemma comp_add_extend: "comp_add c k v = comp_extend c [(k, v)]"
  by (cases c) (simp add: comp_extend_def)

lemma comp_extend_Nil [simp]: "comp_extend c [] = c"
  by (cases c) (simp add: comp_extend_def)

lemma comp_extend_extend [simp]: "comp_extend (comp_extend c xs) ys = comp_extend c (xs @ ys)"
  by (simp add: comp_extend_def)

lemma comp_extend_sel [simp]:
  "comp_name (comp_extend c xs) = comp_name c"
  "properties (comp_extend c xs) = properties c @ xs"
  "subcomponents (comp_extend c xs) = subcomponents c"
  by (simp_all add: comp_extend_def)

lemma comp_extend_inject [simp]: "comp_extend c xs = comp_extend c ys \<longleftrightarrow> xs = ys"
  by (simp add: comp_extend_def)

subsection \<open>Loops over components\<close>

lemma for_each_extend:
  assumes "\<And>s x. x \<in> set xs \<Longrightarrow> body s x = Inr (comp_extend s (f x))"
  shows "for_each body s xs = Inr (comp_extend s (concat (map f xs)))"
  using assms by (induction xs arbitrary: s) simp_all

lemma for_each_Inr:
  assumes "for_each body s xs = Inr s'"
    and "\<And>s x t. x \<in> set xs \<Longrightarrow> body s x = Inr t \<Longrightarrow> P x \<and> t = comp_extend s (f x)"
  shows "list_all P xs \<and> s' = comp_extend s (concat (map f xs))"
  using assms
proof (induction xs arbitrary: s)
  case Nil
  then show ?case by simp
next
  case (Cons x xs)
  from Cons.prems(1) obtain t where t: "body s x = Inr t" and rest: "for_each body t xs = Inr s'"
    by (auto simp add: bind_result_Inr_iff)
  from Cons.prems(2) [OF _ t] have x: "P x" "t = comp_extend s (f x)" by simp_all
  from Cons.IH [OF rest] Cons.prems(2)
  have "list_all P xs \<and> s' = comp_extend t (concat (map f xs))"
    by simp
  with x show ?case by simp
qed

subsection \<open>Guarded statements on a dictionary\<close>

lemma add_if_truthy_dict:
  "add_if_truthy event (PDict kvs) key prop = Inr (comp_extend event (opt_prop kvs key prop))"
  by (simp add: add_if_truthy_def py_get_def truthy_field_def opt_prop_def comp_add_extend
      split: option.splits)

lemma add_if_truthy_not_dict:
  "\<not> is_dict d \<Longrightarrow> add_if_truthy event d key prop = Inl AttributeError"
  by (cases d) (simp_all add: add_if_truthy_def py_get_def)

lemma copy_if_truthy_dict:
  "copy_if_truthy (PDict kvs) key kwargs =
     Inr (case truthy_field kvs key of None \<Rightarrow> kwargs | Some v \<Rightarrow> AList.update key v kwargs)"
  by (simp add: copy_if_truthy_def py_get_def truthy_field_def split: option.splits)

lemma get_rrule_kwargs_dict:
  "get_rrule_kwargs (PDict kvs) =
     (case map_of kvs ''frequency'' of
        None \<Rightarrow> Inl (KeyError ''frequency'')
      | Some f \<Rightarrow>
          Inr (let k1 = (case truthy_field kvs ''count'' of None \<Rightarrow> [(''freq'', f)]
                         | Some v \<Rightarrow> AList.update ''count'' v [(''freq'', f)]);
                   k2 = (case truthy_field kvs ''interval'' of None \<Rightarrow> k1
                         | Some v \<Rightarrow> AList.update ''interval'' v k1)
               in (case truthy_field kvs ''until'' of None \<Rightarrow> k2
                         | Some v \<Rightarrow> AList.update ''until'' v k2)))"
  by (simp add: get_rrule_kwargs_def copy_if_truthy_dict Let_def split: option.splits)

subsection \<open>Lookups\<close>

lemma py_get_default_dict [simp]:
  "py_get_default (PDict kvs) k dflt = Inr (get_or kvs k dflt)"
  by (simp add: get_or_def)

declare py_get_default.simps(1) [simp del]

lemma py_get_dict [simp]: "py_get (PDict kvs) k = Inr (get_or kvs k PNone)"
  by (simp add: py_get_def)

lemma py_get_Inr: "py_get d k = Inr v \<Longrightarrow> is_dict d \<and> v = get_or (fields_of d) k PNone"
  by (cases d) (simp_all add: py_get_def)

lemma py_get_default_Inr:
  "py_get_default d k dflt = Inr v \<Longrightarrow> is_dict d \<and> v = get_or (fields_of d) k dflt"
  by (cases d) simp_all

lemma truthy_get_or: "py_truthy (get_or kvs k PNone) \<longleftrightarrow> truthy_field kvs k \<noteq> None"
  by (simp add: get_or_def truthy_field_def split: option.splits)

lemma truthy_field_Some: "truthy_field kvs k = Some v \<longleftrightarrow> map_of kvs k = Some v \<and> py_truthy v"
  by (auto simp add: truthy_field_def split: option.splits)

lemma py_iter_elements: "py_iter v = Inr xs \<Longrightarrow> elements v = xs"
  by (simp add: elements_def)

subsection \<open>The statements of the formatter, one by one\<close>

text \<open>
  For a dictionary \<^verbatim>\<open>item\<close>, each group of statements either raises or appends the
  properties named in the previous section.
\<close>

lemma add_description_dict:
  "add_description event (PDict kvs) =
     (case map_of kvs ''name'' of
        None \<Rightarrow> Inl (KeyError ''name'')
      | Some n \<Rightarrow> Inr (comp_extend event ((''summary'', n) # description_props kvs)))"
  by (simp add: add_description_def add_if_truthy_dict comp_add_extend description_props_def
      split: option.splits)

lemma add_category_Inr:
  "add_if_truthy event c ''name'' ''categories'' = Inr t \<Longrightarrow>
     is_dict c \<and> t = comp_extend event (category_props c)"
  by (cases c) (simp_all add: add_if_truthy_dict category_props_def add_if_truthy_not_dict)

lemma add_categories_Inr:
  assumes "add_categories event (PDict kvs) = Inr event'"
  shows "\<exists>cs. py_iter (get_or kvs ''calendars'' (PList [])) = Inr cs \<and> list_all is_dict cs \<and>
           event' = comp_extend event (concat (map category_props cs))"
proof -
  from assms obtain cs where cs: "py_iter (get_or kvs ''calendars'' (PList [])) = Inr cs"
    and loop: "for_each (\<lambda>event calendar. add_if_truthy event calendar ''name'' ''categories'')
                 event cs = Inr event'"
    by (auto simp add: add_categories_def bind_result_Inr_iff)
  from for_each_Inr [OF loop, of is_dict category_props] add_category_Inr
  have "list_all is_dict cs \<and> event' = comp_extend event (concat (map category_props cs))"
    by blast
  with cs show ?thesis by blast
qed

lemma add_categories_ok:
  assumes "py_iter (get_or kvs ''calendars'' (PList [])) = Inr cs" and "list_all is_dict cs"
  shows "add_categories event (PDict kvs) = Inr (comp_extend event (concat (map category_props cs)))"
proof -
  have "for_each (\<lambda>event calendar. add_if_truthy event calendar ''name'' ''categories'') event cs
          = Inr (comp_extend event (concat (map category_props cs)))"
  proof (rule for_each_extend)
    fix s x assume "x \<in> set cs"
    with assms(2) have "is_dict x" by (simp add: list_all_iff)
    then show "add_if_truthy s x ''name'' ''categories'' = Inr (comp_extend s (category_props x))"
      by (auto simp add: is_dict_conv add_if_truthy_dict category_props_def)
  qed
  with assms(1) show ?thesis by (simp add: add_categories_def)
qed

lemma add_dates_dict:
  "add_dates event (PDict kvs) =
     (case get_or kvs ''dates'' (PDict []) of
        PDict d \<Rightarrow>
          (case map_of d ''start'' of
             None \<Rightarrow> Inl (KeyError ''start'')
           | Some s \<Rightarrow> Inr (comp_extend event ((''dtstart'', s) # opt_prop d ''end'' ''dtend'')))
      | other \<Rightarrow> Inl TypeError)"
  by (simp add: add_dates_def add_if_truthy_dict comp_add_extend
      split: option.splits pyval.splits)

lemma add_rrule_dict:
  "add_rrule event (PDict kvs) =
     (case map_of kvs ''event'' of
        None \<Rightarrow> Inr event
      | Some (PDict e) \<Rightarrow>
          (case map_of e ''dates'' of
             None \<Rightarrow> Inr event
           | Some (PDict d) \<Rightarrow>
               (case map_of d ''recurring_rule'' of
                  None \<Rightarrow> Inr event
                | Some r \<Rightarrow>
                    except_KeyError_pass
                      (bind_result (get_rrule_kwargs r) (\<lambda>kwargs.
                         Inr (comp_add event ''rrule'' (PDict kwargs))))
                      event)
           | Some other \<Rightarrow> Inl TypeError)
      | Some other \<Rightarrow> Inl TypeError)"
  by (simp add: add_rrule_def split: option.splits pyval.splits)

lemma get_rrule_kwargs_not_dict: "\<not> is_dict r \<Longrightarrow> get_rrule_kwargs r = Inl TypeError"
  by (cases r) (simp_all add: get_rrule_kwargs_def)

lemma rrule_step_dict:
  "is_dict r \<Longrightarrow>
   except_KeyError_pass
     (bind_result (get_rrule_kwargs r) (\<lambda>kwargs. Inr (comp_add event ''rrule'' (PDict kwargs))))
     event
   = Inr (comp_extend event
            (case get_rrule_kwargs r of Inl e \<Rightarrow> [] | Inr kw \<Rightarrow> [(''rrule'', PDict kw)]))"
  by (auto simp add: is_dict_conv get_rrule_kwargs_dict comp_add_extend split: option.splits)

lemma rrule_step_Inr:
  assumes "except_KeyError_pass
     (bind_result (get_rrule_kwargs r) (\<lambda>kwargs. Inr (comp_add event ''rrule'' (PDict kwargs))))
     event = Inr t"
  shows "t = comp_extend event
            (case get_rrule_kwargs r of Inl e \<Rightarrow> [] | Inr kw \<Rightarrow> [(''rrule'', PDict kw)])"
proof (cases "is_dict r")
  case True
  from rrule_step_dict [OF this, of event] assms show ?thesis by simp
next
  case False
  from get_rrule_kwargs_not_dict [OF this] assms show ?thesis by simp
qed

lemma add_rrule_Inr:
  assumes "add_rrule event (PDict kvs) = Inr event'"
  shows "event' = comp_extend event (rrule_props kvs)"
  using assms
  by (auto simp add: add_rrule_dict rrule_props_def rrule_source_def
      split: option.splits pyval.splits dest: rrule_step_Inr)

lemma add_attachment_dict:
  "add_attachment env event (PDict mk) = Inr (comp_extend event (attachment_props env (PDict mk)))"
  by (simp add: add_attachment_def attachment_props_def get_or_def truthy_field_def
      comp_add_extend split: option.splits)

lemma add_attachment_Inr:
  "add_attachment env event m = Inr t \<Longrightarrow>
     is_dict m \<and> t = comp_extend event (attachment_props env m)"
  by (cases m) (simp_all add: add_attachment_dict, simp_all add: add_attachment_def py_get_def)

lemma add_attachments_Inr:
  assumes "add_attachments env event (PDict kvs) = Inr event'"
  shows "\<exists>e fs. get_or kvs ''event'' (PDict []) = PDict e \<and>
           py_iter (get_or e ''files'' (PList [])) = Inr fs \<and> list_all is_dict fs \<and>
           event' = comp_extend event (concat (map (attachment_props env) fs))"
proof -
  from assms obtain ev fs where ev: "py_get_default (get_or kvs ''event'' (PDict [])) ''files'' (PList []) = Inr ev"
    and fs: "py_iter ev = Inr fs"
    and loop: "for_each (add_attachment env) event fs = Inr event'"
    by (auto simp add: add_attachments_def bind_result_Inr_iff)
  from py_get_default_Inr [OF ev] obtain e where e: "get_or kvs ''event'' (PDict []) = PDict e"
    and ev': "ev = get_or e ''files'' (PList [])"
    by (auto simp add: is_dict_conv)
  from for_each_Inr [OF loop, of is_dict "attachment_props env"] add_attachment_Inr
  have "list_all is_dict fs \<and> event' = comp_extend event (concat (map (attachment_props env) fs))"
    by blast
  with e ev' fs show ?thesis by blast
qed

lemma add_attachments_ok:
  assumes "get_or kvs ''event'' (PDict []) = PDict e"
    and "py_iter (get_or e ''files'' (PList [])) = Inr fs" and "list_all is_dict fs"
  shows "add_attachments env event (PDict kvs)
           = Inr (comp_extend event (concat (map (attachment_props env) fs)))"
proof -
  have "for_each (add_attachment env) event fs
          = Inr (comp_extend event (concat (map (attachment_props env) fs)))"
  proof (rule for_each_extend)
    fix s x assume "x \<in> set fs"
    with assms(3) have "is_dict x" by (simp add: list_all_iff)
    then show "add_attachment env s x = Inr (comp_extend s (attachment_props env x))"
      by (auto simp add: is_dict_conv add_attachment_dict)
  qed
  with assms(1,2) show ?thesis by (simp add: add_attachments_def)
qed

lemma add_location_iff:
  "add_location event loc = Inr t \<longleftrightarrow>
     location_ok loc \<and> t = comp_extend event (location_props loc)"
proof (cases loc)
  case (PDict lk)
  show ?thesis
    unfolding PDict
    by (auto simp add: add_location_def add_if_truthy_dict location_ok_def location_props_def
        geo_props_def comp_add_extend split: option.splits pyval.splits)
qed (simp_all add: add_location_def add_if_truthy_not_dict location_ok_def)

lemma add_geo_Inr:
  assumes "add_geo event (PDict kvs) = Inr event'"
  shows "(truthy_field kvs ''location'' = None \<and> event' = event) \<or>
         (\<exists>locs ls. truthy_field kvs ''location'' = Some locs \<and> py_iter locs = Inr ls \<and>
            list_all location_ok ls \<and>
            event' = comp_extend event (concat (map location_props ls)))"
proof (cases "truthy_field kvs ''location''")
  case None
  with assms show ?thesis
    by (simp add: add_geo_def truthy_get_or)
next
  case (Some locs)
  then have m: "map_of kvs ''location'' = Some locs" and t: "py_truthy locs"
    by (simp_all add: truthy_field_Some)
  from Some have "py_truthy (get_or kvs ''location'' PNone)"
    by (simp add: truthy_get_or)
  with assms m obtain ls where ls: "py_iter locs = Inr ls"
    and loop: "for_each add_location event ls = Inr event'"
    by (auto simp add: add_geo_def bind_result_Inr_iff)
  from for_each_Inr [OF loop, of location_ok location_props] add_location_iff
  have "list_all location_ok ls \<and> event' = comp_extend event (concat (map location_props ls))"
    by blast
  with Some ls show ?thesis by blast
qed

lemma add_links_Inr:
  assumes "add_links event (PDict kvs) = Inr event'"
  shows "\<exists>e ls. get_or kvs ''event'' (PDict []) = PDict e \<and>
           py_iter (get_or e ''links'' (PList [])) = Inr ls \<and>
           event' = comp_extend event (map (Pair ''url'') ls)"
proof -
  from assms obtain lv ls where lv: "py_get_default (get_or kvs ''event'' (PDict [])) ''links'' (PList []) = Inr lv"
    and ls: "py_iter lv = Inr ls"
    and loop: "for_each (\<lambda>event link. Inr (comp_add event ''url'' link)) event ls = Inr event'"
    by (auto simp add: add_links_def bind_result_Inr_iff)
  from py_get_default_Inr [OF lv] obtain e where e: "get_or kvs ''event'' (PDict []) = PDict e"
    and lv': "lv = get_or e ''links'' (PList [])"
    by (auto simp add: is_dict_conv)
  have "for_each (\<lambda>event link. Inr (comp_add event ''url'' link)) event ls
          = Inr (comp_extend event (concat (map (\<lambda>l. [(''url'', l)]) ls)))"
    by (rule for_each_extend) (simp add: comp_add_extend)
  also have "concat (map (\<lambda>l. [(''url'', l)]) ls) = map (Pair ''url'') ls"
    by (induction ls) simp_all
  finally have "event' = comp_extend event (map (Pair ''url'') ls)"
    using loop by simp
  with e lv' ls show ?thesis by blast
qed

lemma add_contact_Inr:
  "add_contact env event c = Inr t \<Longrightarrow> is_dict c \<and> t = comp_extend event (contact_props env c)"
  by (cases c)
    (auto simp add: add_contact_def contact_props_def truthy_get_or comp_add_extend py_get_def
      bind_result_Inr_iff split: option.splits if_splits)

lemma add_contacts_Inr:
  assumes "add_contacts env event (PDict kvs) = Inr event'"
  shows "\<exists>e cs. get_or kvs ''event'' (PDict []) = PDict e \<and>
           py_iter (get_or e ''event_contact_info'' PNone) = Inr cs \<and> list_all is_dict cs \<and>
           event' = comp_extend event (concat (map (contact_props env) cs))"
proof -
  from assms obtain info cs where info: "py_get (get_or kvs ''event'' (PDict [])) ''event_contact_info'' = Inr info"
    and cs: "py_iter info = Inr cs"
    and loop: "for_each (add_contact env) event cs = Inr event'"
    by (auto simp add: add_contacts_def bind_result_Inr_iff)
  from py_get_Inr [OF info] obtain e where e: "get_or kvs ''event'' (PDict []) = PDict e"
    and info': "info = get_or e ''event_contact_info'' PNone"
    by (auto simp add: is_dict_conv)
  from for_each_Inr [OF loop, of is_dict "contact_props env"] add_contact_Inr
  have "list_all is_dict cs \<and> event' = comp_extend event (concat (map (contact_props env) cs))"
    by blast
  with e info' cs show ?thesis by blast
qed

subsection \<open>The event of a successful run\<close>

lemma add_dates_Inr:
  assumes "add_dates event (PDict kvs) = Inr event'"
  shows "\<exists>s. map_of (dates_fields kvs) ''start'' = Some s \<and>
           event' = comp_extend event ((''dtstart'', s) # opt_prop (dates_fields kvs) ''end'' ''dtend'')"
  using assms
  by (auto simp add: add_dates_dict dates_fields_def split: pyval.splits option.splits)

lemma Event_extend: "comp_extend Event ps = Component ''VEVENT'' ps []"
  by (simp add: comp_extend_def Event_def)

lemma format_event_Inr:
  assumes "format_event env (PDict kvs) = Inr event"
  shows "\<exists>g n s. guid (PDict kvs) = Inr g \<and> map_of kvs ''name'' = Some n \<and>
           map_of (dates_fields kvs) ''start'' = Some s \<and>
           event = Component ''VEVENT'' (event_props env kvs g n s) []"
proof -
  let ?item = "PDict kvs"
  from assms obtain g e1 e2 e3 e4 e5 e6 e7 where g: "guid ?item = Inr g"
    and 1: "add_description (comp_add (comp_add Event ''uid'' g) ''dtstamp'' (utcnow env)) ?item = Inr e1"
    and 2: "add_categories e1 ?item = Inr e2"
    and 3: "add_dates e2 ?item = Inr e3"
    and 4: "add_rrule e3 ?item = Inr e4"
    and 5: "add_attachments env e4 ?item = Inr e5"
    and 6: "add_geo e5 ?item = Inr e6"
    and 7: "add_links e6 ?item = Inr e7"
    and 8: "add_contacts env e7 ?item = Inr event"
    unfolding format_event_def bind_result_Inr_iff by blast
  from 1 obtain n where n: "map_of kvs ''name'' = Some n"
    and e1: "e1 = comp_extend Event
               ([(''uid'', g), (''dtstamp'', utcnow env), (''summary'', n)] @ description_props kvs)"
    by (auto simp add: add_description_dict comp_add_extend split: option.splits)
  from add_categories_Inr [OF 2]
  have e2: "e2 = comp_extend e1 (categories_props kvs)"
    by (auto simp add: categories_props_def py_iter_elements)
  from add_dates_Inr [OF 3] obtain s where s: "map_of (dates_fields kvs) ''start'' = Some s"
    and e3: "e3 = comp_extend e2 ([(''dtstart'', s)] @ opt_prop (dates_fields kvs) ''end'' ''dtend'')"
    by auto
  from add_rrule_Inr [OF 4] have e4: "e4 = comp_extend e3 (rrule_props kvs)" .
  from add_attachments_Inr [OF 5] have e5: "e5 = comp_extend e4 (attachments_props env kvs)"
    by (auto simp add: attachments_props_def event_fields_def py_iter_elements)
  from add_geo_Inr [OF 6] have e6: "e6 = comp_extend e5 (locations_props kvs)"
    by (auto simp add: locations_props_def py_iter_elements)
  from add_links_Inr [OF 7] have e7: "e7 = comp_extend e6 (links_props kvs)"
    by (auto simp add: links_props_def event_fields_def py_iter_elements)
  from add_contacts_Inr [OF 8] have e8: "event = comp_extend e7 (contacts_props env kvs)"
    by (auto simp add: contacts_props_def event_fields_def py_iter_elements)
  have "event = Component ''VEVENT'' (event_props env kvs g n s) []"
    unfolding e8 e7 e6 e5 e4 e3 e2 e1 event_props_def
    by (simp add: comp_extend_def Event_def)
  with g n s show ?thesis by blast
qed

subsection \<open>Records typed as the data model has them\<close>

text \<open>
  On such a record no statement before the contacts step raises, except for a missing
  \<^verbatim>\<open>name\<close> or \<^verbatim>\<open>dates.start\<close>.
\<close>

lemma guid_dict:
  "get_or kvs ''event'' (PDict []) = PDict e \<Longrightarrow>
     guid (PDict kvs) = Inr (get_or kvs ''guid'' (get_or e ''guid'' (get_or kvs ''_id'' PNone)))"
  by (simp add: guid_def)

lemma guid_Inr: "guid item = Inr g \<Longrightarrow> is_dict item"
  by (cases item) (simp_all add: guid_def py_get_def)

lemma list_of_conv: "list_of P v \<longleftrightarrow> (\<exists>xs. v = PList xs \<and> list_all P xs)"
  by (cases v) (simp_all add: list_of_def)

lemma well_typed_event:
  assumes "well_typed kvs"
  shows "\<exists>e. get_or kvs ''event'' (PDict []) = PDict e \<and> event_fields kvs = e \<and> event_ok e"
proof -
  from assms have "is_dict (get_or kvs ''event'' (PDict []))" and "event_ok (event_fields kvs)"
    by (simp_all add: well_typed_def)
  then show ?thesis
    by (auto simp add: is_dict_conv event_fields_def)
qed

lemma well_typed_dates:
  "well_typed kvs \<Longrightarrow> \<exists>d. get_or kvs ''dates'' (PDict []) = PDict d \<and> dates_fields kvs = d"
  by (auto simp add: well_typed_def is_dict_conv dates_fields_def)

lemma add_rrule_ok:
  assumes "well_typed kvs"
  shows "add_rrule event (PDict kvs) = Inr (comp_extend event (rrule_props kvs))"
proof (cases "map_of kvs ''event''")
  case None
  then show ?thesis
    by (simp add: add_rrule_dict rrule_props_def rrule_source_def)
next
  case (Some v)
  from well_typed_event [OF assms] Some obtain e where v: "v = PDict e" and ok: "event_ok e"
    by (auto simp add: get_or_def)
  show ?thesis
  proof (cases "map_of e ''dates''")
    case None
    with Some v show ?thesis
      by (simp add: add_rrule_dict rrule_props_def rrule_source_def)
  next
    case dates: (Some w)
    from ok dates obtain d where w: "w = PDict d"
      and r: "is_dict (get_or d ''recurring_rule'' (PDict []))"
      by (auto simp add: event_ok_def get_or_def is_dict_conv)
    show ?thesis
    proof (cases "map_of d ''recurring_rule''")
      case None
      with Some v dates w show ?thesis
        by (simp add: add_rrule_dict rrule_props_def rrule_source_def)
    next
      case rule: (Some r)
      with r have "is_dict r" by (simp add: get_or_def)
      from rrule_step_dict [OF this, of event] Some v dates w rule show ?thesis
        by (simp add: add_rrule_dict rrule_props_def rrule_source_def)
    qed
  qed
qed

lemma add_categories_typed:
  assumes "well_typed kvs"
  shows "add_categories event (PDict kvs) = Inr (comp_extend event (categories_props kvs))"
proof -
  from assms obtain cs where cs: "get_or kvs ''calendars'' (PList []) = PList cs"
    and d: "list_all is_dict cs"
    by (auto simp add: well_typed_def list_of_conv)
  from add_categories_ok [of kvs cs event] cs d show ?thesis
    by (simp add: categories_props_def elements_def)
qed

lemma add_attachments_typed:
  assumes "well_typed kvs"
  shows "add_attachments env event (PDict kvs) = Inr (comp_extend event (attachments_props env kvs))"
proof -
  from well_typed_event [OF assms] obtain e where e: "get_or kvs ''event'' (PDict []) = PDict e"
    and ef: "event_fields kvs = e" and ok: "event_ok e"
    by blast
  from ok obtain fs where fs: "get_or e ''files'' (PList []) = PList fs" and d: "list_all is_dict fs"
    by (auto simp add: event_ok_def list_of_conv)
  from add_attachments_ok [of kvs e fs env event] e fs d ef show ?thesis
    by (simp add: attachments_props_def elements_def)
qed

lemma add_geo_typed:
  assumes "well_typed kvs"
  shows "add_geo event (PDict kvs) = Inr (comp_extend event (locations_props kvs))"
proof (cases "truthy_field kvs ''location''")
  case None
  then show ?thesis
    by (simp add: add_geo_def truthy_get_or locations_props_def)
next
  case (Some locs)
  then have m: "map_of kvs ''location'' = Some locs" and t: "py_truthy locs"
    by (simp_all add: truthy_field_Some)
  from assms m obtain ls where ls: "locs = PList ls" and ok: "list_all location_ok ls"
    by (auto simp add: well_typed_def list_of_conv get_or_def)
  have "for_each add_location event ls = Inr (comp_extend event (concat (map location_props ls)))"
  proof (rule for_each_extend)
    fix s x assume "x \<in> set ls"
    with ok have "location_ok x" by (simp add: list_all_iff)
    then show "add_location s x = Inr (comp_extend s (location_props x))"
      by (simp add: add_location_iff)
  qed
  with Some m ls show ?thesis
    by (simp add: add_geo_def truthy_get_or locations_props_def elements_def get_or_def)
qed

lemma add_links_typed:
  assumes "well_typed kvs"
  shows "add_links event (PDict kvs) = Inr (comp_extend event (links_props kvs))"
proof -
  from well_typed_event [OF assms] obtain e where e: "get_or kvs ''event'' (PDict []) = PDict e"
    and ef: "event_fields kvs = e" and ok: "event_ok e"
    by blast
  from ok obtain ls where ls: "get_or e ''links'' (PList []) = PList ls"
    by (auto simp add: event_ok_def list_of_conv)
  have "for_each (\<lambda>event link. Inr (comp_add event ''url'' link)) event ls
          = Inr (comp_extend event (concat (map (\<lambda>l. [(''url'', l)]) ls)))"
    by (rule for_each_extend) (simp add: comp_add_extend)
  also have "concat (map (\<lambda>l. [(''url'', l)]) ls) = map (Pair ''url'') ls"
    by (induction ls) simp_all
  finally show ?thesis using e ls ef
    by (simp add: add_links_def links_props_def elements_def)
qed

lemma format_event_typed_no_name:
  assumes "well_typed kvs" and "map_of kvs ''name'' = None"
  shows "format_event env (PDict kvs) = Inl (KeyError ''name'')"
proof -
  from well_typed_event [OF assms(1)] obtain e where "get_or kvs ''event'' (PDict []) = PDict e"
    by blast
  from guid_dict [OF this] assms(2) show ?thesis
    by (simp add: format_event_def add_description_dict)
qed

lemma format_event_typed_no_start:
  assumes "well_typed kvs" and "map_of kvs ''name'' = Some n"
    and "map_of (dates_fields kvs) ''start'' = None"
  shows "format_event env (PDict kvs) = Inl (KeyError ''start'')"
proof -
  from well_typed_event [OF assms(1)] obtain e where "get_or kvs ''event'' (PDict []) = PDict e"
    by blast
  note g = guid_dict [OF this]
  from well_typed_dates [OF assms(1)] obtain d where d: "get_or kvs ''dates'' (PDict []) = PDict d"
    by blast
  with assms(3) have "map_of d ''start'' = None" by (simp add: dates_fields_def)
  with d have "\<And>ev. add_dates ev (PDict kvs) = Inl (KeyError ''start'')"
    by (simp add: add_dates_dict)
  with g assms(2) show ?thesis
    by (simp add: format_event_def add_description_dict add_categories_typed [OF assms(1)])
qed

lemma format_event_typed:
  assumes "well_typed kvs" and "map_of kvs ''name'' = Some n"
    and "map_of (dates_fields kvs) ''start'' = Some s"
  shows "\<exists>g. guid (PDict kvs) = Inr g \<and>
           format_event env (PDict kvs) =
             add_contacts env (Component ''VEVENT'' (prefix_props env kvs g n s) []) (PDict kvs)"
proof -
  from well_typed_event [OF assms(1)] obtain e where "get_or kvs ''event'' (PDict []) = PDict e"
    by blast
  from guid_dict [OF this] obtain g where g: "guid (PDict kvs) = Inr g" by blast
  from well_typed_dates [OF assms(1)] obtain d where d: "get_or kvs ''dates'' (PDict []) = PDict d"
    by blast
  with assms(3) have "map_of d ''start'' = Some s" by (simp add: dates_fields_def)
  with d have dates: "\<And>ev. add_dates ev (PDict kvs)
      = Inr (comp_extend ev ([(''dtstart'', s)] @ opt_prop (dates_fields kvs) ''end'' ''dtend''))"
    by (simp add: add_dates_dict dates_fields_def)
  have "format_event env (PDict kvs) =
          add_contacts env (comp_extend Event (prefix_props env kvs g n s)) (PDict kvs)"
    using g assms(2)
    by (simp add: format_event_def add_description_dict add_categories_typed [OF assms(1)]
        dates add_rrule_ok [OF assms(1)] add_attachments_typed [OF assms(1)]
        add_geo_typed [OF assms(1)] add_links_typed [OF assms(1)] comp_add_extend
        prefix_props_def)
  with g show ?thesis by (simp add: Event_extend)
qed

subsection \<open>The calendar around the event\<close>

lemma format_item_Inr:
  "format_item env item = Inr doc \<longleftrightarrow>
     (\<exists>event. format_event env item = Inr event \<and>
        doc = to_ical env (Component ''VCALENDAR''
                [(''version'', PStr ''2.0''), (''prodid'', PStr ''Newshub'')] [event]))"
  by (auto simp add: format_item_def calendar_of_item_def bind_result_Inr_iff Calendar_def
      VERSION_def PRODID_def)

lemma format_item_Inl:
  "format_event env item = Inl e \<Longrightarrow> format_item env item = Inl e"
  by (simp add: format_item_def calendar_of_item_def)

lemma format_event_Inr_dict: "format_event env item = Inr event \<Longrightarrow> is_dict item"
  by (auto simp add: format_event_def bind_result_Inr_iff dest: guid_Inr)

subsection \<open>Where each property of the event comes from\<close>

lemma elements_mem: "x \<in> set (elements v) \<longleftrightarrow> (\<exists>xs. py_iter v = Inr xs \<and> x \<in> set xs)"
  by (cases "py_iter v") (simp_all add: elements_def)

lemma truthy_field_fields_of:
  "truthy_field (fields_of c) k = Some v \<longleftrightarrow> (\<exists>d. c = PDict d \<and> map_of d k = Some v \<and> py_truthy v)"
  by (cases c) (auto simp add: truthy_field_def split: option.splits)

lemma opt_prop_mem:
  "(k, v) \<in> set (opt_prop kvs key prop) \<longleftrightarrow> k = prop \<and> map_of kvs key = Some v \<and> py_truthy v"
  by (cases "truthy_field kvs key") (auto simp add: opt_prop_def truthy_field_def split: option.splits if_splits)

lemma description_props_mem:
  "(k, v) \<in> set (description_props kvs) \<longleftrightarrow>
     (k = ''description'' \<and> map_of kvs ''definition_long'' = Some v \<and> py_truthy v) \<or>
     (k = ''comment'' \<and> map_of kvs ''ednote'' = Some v \<and> py_truthy v) \<or>
     (k = ''priority'' \<and> map_of kvs ''priority'' = Some v \<and> py_truthy v)"
  by (auto simp add: description_props_def opt_prop_mem)

lemma categories_props_mem:
  "(k, v) \<in> set (categories_props kvs) \<longleftrightarrow>
     k = ''categories'' \<and>
     (\<exists>calendars cs c. map_of kvs ''calendars'' = Some calendars \<and> py_iter calendars = Inr cs \<and>
        PDict c \<in> set cs \<and> map_of c ''name'' = Some v \<and> py_truthy v)"
proof -
  have "(k, v) \<in> set (categories_props kvs) \<longleftrightarrow>
      k = ''categories'' \<and> (\<exists>x \<in> set (elements (get_or kvs ''calendars'' (PList []))).
         truthy_field (fields_of x) ''name'' = Some v)"
    by (auto simp add: categories_props_def category_props_def opt_prop_mem truthy_field_Some)
  also have "(\<exists>x \<in> set (elements (get_or kvs ''calendars'' (PList []))).
         truthy_field (fields_of x) ''name'' = Some v) \<longleftrightarrow>
     (\<exists>calendars cs c. map_of kvs ''calendars'' = Some calendars \<and> py_iter calendars = Inr cs \<and>
        PDict c \<in> set cs \<and> map_of c ''name'' = Some v \<and> py_truthy v)"
  proof (cases "map_of kvs ''calendars''")
    case None
    then show ?thesis by (simp add: get_or_def elements_def)
  next
    case (Some calendars)
    then show ?thesis
      unfolding get_or_def elements_mem truthy_field_fields_of Bex_def by auto
  qed
  finally show ?thesis .
qed

lemma get_rrule_kwargs_Inr_frequency:
  "get_rrule_kwargs r = Inr kw \<Longrightarrow> \<exists>d f. r = PDict d \<and> map_of d ''frequency'' = Some f"
  by (cases r) (auto simp add: get_rrule_kwargs_dict get_rrule_kwargs_not_dict split: option.splits)

lemma rrule_source_Some:
  "rrule_source kvs = Some r \<longleftrightarrow>
     (\<exists>e d. map_of kvs ''event'' = Some (PDict e) \<and> map_of e ''dates'' = Some (PDict d) \<and>
        map_of d ''recurring_rule'' = Some r)"
proof (cases "map_of kvs ''event''")
  case None
  then show ?thesis by (simp add: rrule_source_def)
next
  case (Some v)
  show ?thesis
  proof (cases v)
    case (PDict e)
    show ?thesis
    proof (cases "map_of e ''dates''")
      case None
      with Some PDict show ?thesis by (simp add: rrule_source_def)
    next
      case d: (Some w)
      with Some PDict show ?thesis by (cases w) (simp_all add: rrule_source_def)
    qed
  qed (simp_all add: rrule_source_def Some)
qed

lemma rrule_props_mem:
  "(k, v) \<in> set (rrule_props kvs) \<longleftrightarrow>
     k = ''rrule'' \<and>
     (\<exists>e d r f kw. map_of kvs ''event'' = Some (PDict e) \<and> map_of e ''dates'' = Some (PDict d) \<and>
        map_of d ''recurring_rule'' = Some (PDict r) \<and> map_of r ''frequency'' = Some f \<and>
        get_rrule_kwargs (PDict r) = Inr kw \<and> v = PDict kw)"
proof (cases "rrule_source kvs")
  case None
  show ?thesis
  proof
    assume "(k, v) \<in> set (rrule_props kvs)"
    with None show "k = ''rrule'' \<and>
     (\<exists>e d r f kw. map_of kvs ''event'' = Some (PDict e) \<and> map_of e ''dates'' = Some (PDict d) \<and>
        map_of d ''recurring_rule'' = Some (PDict r) \<and> map_of r ''frequency'' = Some f \<and>
        get_rrule_kwargs (PDict r) = Inr kw \<and> v = PDict kw)"
      by (simp add: rrule_props_def)
  next
    assume "k = ''rrule'' \<and>
     (\<exists>e d r f kw. map_of kvs ''event'' = Some (PDict e) \<and> map_of e ''dates'' = Some (PDict d) \<and>
        map_of d ''recurring_rule'' = Some (PDict r) \<and> map_of r ''frequency'' = Some f \<and>
        get_rrule_kwargs (PDict r) = Inr kw \<and> v = PDict kw)"
    then obtain r where "rrule_source kvs = Some (PDict r)"
      by (auto simp add: rrule_source_Some)
    with None show "(k, v) \<in> set (rrule_props kvs)" by simp
  qed
next
  case (Some r)
  then obtain e d where p: "map_of kvs ''event'' = Some (PDict e)" "map_of e ''dates'' = Some (PDict d)"
      "map_of d ''recurring_rule'' = Some r"
    by (auto simp add: rrule_source_Some)
  show ?thesis
  proof (cases "get_rrule_kwargs r")
    case (Inl err)
    with Some p show ?thesis by (auto simp add: rrule_props_def)
  next
    case (Inr kw)
    from get_rrule_kwargs_Inr_frequency [OF this] Inr Some p show ?thesis
      by (auto simp add: rrule_props_def)
  qed
qed

lemma event_fields_Some:
  "map_of (event_fields kvs) k = Some v \<longleftrightarrow>
     (\<exists>e. map_of kvs ''event'' = Some (PDict e) \<and> map_of e k = Some v)"
proof (cases "map_of kvs ''event''")
  case None
  then show ?thesis by (simp add: event_fields_def get_or_def)
next
  case (Some w)
  then show ?thesis by (cases w) (simp_all add: event_fields_def get_or_def)
qed

lemma attachment_props_mem:
  "(k, v) \<in> set (attachment_props env x) \<longleftrightarrow>
     k = ''attach'' \<and> (\<exists>media. truthy_field (fields_of x) ''media'' = Some media \<and> v = url_for env media)"
  by (cases "truthy_field (fields_of x) ''media''") (auto simp add: attachment_props_def)

lemma elements_empty_list: "elements (PList []) = []"
  by (simp add: elements_def)

lemma elements_None: "elements PNone = []"
  by (simp add: elements_def)

lemma event_list_mem:
  assumes "elements dflt = []"
  shows "(\<exists>x \<in> set (elements (get_or (event_fields kvs) k dflt)). P x) \<longleftrightarrow>
     (\<exists>e l xs x. map_of kvs ''event'' = Some (PDict e) \<and> map_of e k = Some l \<and>
        py_iter l = Inr xs \<and> x \<in> set xs \<and> P x)"
proof (cases "map_of (event_fields kvs) k")
  case None
  have "\<not> (\<exists>e l. map_of kvs ''event'' = Some (PDict e) \<and> map_of e k = Some l)"
  proof
    assume "\<exists>e l. map_of kvs ''event'' = Some (PDict e) \<and> map_of e k = Some l"
    then obtain l where "map_of (event_fields kvs) k = Some l"
      unfolding event_fields_Some by blast
    with None show False by simp
  qed
  moreover from None assms have "elements (get_or (event_fields kvs) k dflt) = []"
    by (simp add: get_or_def)
  ultimately show ?thesis by auto
next
  case (Some l)
  then obtain e where e: "map_of kvs ''event'' = Some (PDict e)" "map_of e k = Some l"
    unfolding event_fields_Some by blast
  from Some have "get_or (event_fields kvs) k dflt = l" by (simp add: get_or_def)
  with e show ?thesis
    unfolding elements_mem Bex_def by auto
qed

lemma attachments_props_mem:
  "(k, v) \<in> set (attachments_props env kvs) \<longleftrightarrow>
     k = ''attach'' \<and>
     (\<exists>e files fs m media. map_of kvs ''event'' = Some (PDict e) \<and> map_of e ''files'' = Some files \<and>
        py_iter files = Inr fs \<and> PDict m \<in> set fs \<and> map_of m ''media'' = Some media \<and>
        py_truthy media \<and> v = url_for env media)"
proof -
  have "(k, v) \<in> set (attachments_props env kvs) \<longleftrightarrow>
      k = ''attach'' \<and> (\<exists>x \<in> set (elements (get_or (event_fields kvs) ''files'' (PList []))).
         \<exists>media. truthy_field (fields_of x) ''media'' = Some media \<and> v = url_for env media)"
    by (auto simp add: attachments_props_def attachment_props_mem)
  also have "(\<exists>x \<in> set (elements (get_or (event_fields kvs) ''files'' (PList []))).
         \<exists>media. truthy_field (fields_of x) ''media'' = Some media \<and> v = url_for env media) \<longleftrightarrow>
     (\<exists>e files fs m media. map_of kvs ''event'' = Some (PDict e) \<and> map_of e ''files'' = Some files \<and>
        py_iter files = Inr fs \<and> PDict m \<in> set fs \<and> map_of m ''media'' = Some media \<and>
        py_truthy media \<and> v = url_for env media)"
    unfolding event_list_mem [OF elements_empty_list] truthy_field_fields_of
    by blast
  finally show ?thesis .
qed

lemma geo_props_mem:
  "(k, v) \<in> set (geo_props loc) \<longleftrightarrow>
     k = ''geo'' \<and>
     (\<exists>d c lat lon. loc = PDict d \<and> map_of d ''location'' = Some (PDict c) \<and>
        map_of c ''lat'' = Some lat \<and> map_of c ''lon'' = Some lon \<and> v = PTuple [lat, lon])"
proof (cases loc)
  case (PDict d)
  show ?thesis
  proof (cases "map_of d ''location''")
    case None
    with PDict show ?thesis by (simp add: geo_props_def)
  next
    case (Some w)
    with PDict show ?thesis
      by (cases w) (auto simp add: geo_props_def split: option.splits)
  qed
qed (simp_all add: geo_props_def)

lemma location_props_mem:
  "(k, v) \<in> set (location_props loc) \<longleftrightarrow>
     (k = ''location'' \<and> (\<exists>d. loc = PDict d \<and> map_of d ''name'' = Some v \<and> py_truthy v)) \<or>
     (k = ''geo'' \<and>
      (\<exists>d c lat lon. loc = PDict d \<and> map_of d ''location'' = Some (PDict c) \<and>
         map_of c ''lat'' = Some lat \<and> map_of c ''lon'' = Some lon \<and> v = PTuple [lat, lon]))"
proof -
  have "(k, v) \<in> set (opt_prop (fields_of loc) ''name'' ''location'') \<longleftrightarrow>
      k = ''location'' \<and> (\<exists>d. loc = PDict d \<and> map_of d ''name'' = Some v \<and> py_truthy v)"
    by (cases loc) (auto simp add: opt_prop_mem)
  then show ?thesis
    by (simp add: location_props_def geo_props_mem)
qed

lemma locations_props_mem:
  "(k, v) \<in> set (locations_props kvs) \<longleftrightarrow>
     (\<exists>locations ls loc. map_of kvs ''location'' = Some locations \<and> py_truthy locations \<and>
        py_iter locations = Inr ls \<and> loc \<in> set ls \<and> (k, v) \<in> set (location_props loc))"
proof (cases "truthy_field kvs ''location''")
  case None
  then have "\<not> (\<exists>locations. map_of kvs ''location'' = Some locations \<and> py_truthy locations)"
    by (auto simp add: truthy_field_def split: option.splits if_splits)
  with None show ?thesis by (auto simp add: locations_props_def)
next
  case (Some locations)
  then have "map_of kvs ''location'' = Some locations" "py_truthy locations"
    by (simp_all add: truthy_field_Some)
  with Some show ?thesis
    by (simp add: locations_props_def elements_mem Bex_def) blast
qed

lemma links_props_mem:
  "(k, v) \<in> set (links_props kvs) \<longleftrightarrow>
     k = ''url'' \<and>
     (\<exists>e links ls. map_of kvs ''event'' = Some (PDict e) \<and> map_of e ''links'' = Some links \<and>
        py_iter links = Inr ls \<and> v \<in> set ls)"
proof -
  have "(k, v) \<in> set (links_props kvs) \<longleftrightarrow>
      k = ''url'' \<and> (\<exists>x \<in> set (elements (get_or (event_fields kvs) ''links'' (PList []))). x = v)"
    by (auto simp add: links_props_def)
  also have "(\<exists>x \<in> set (elements (get_or (event_fields kvs) ''links'' (PList []))). x = v) \<longleftrightarrow>
     (\<exists>e links ls. map_of kvs ''event'' = Some (PDict e) \<and> map_of e ''links'' = Some links \<and>
        py_iter links = Inr ls \<and> v \<in> set ls)"
    unfolding event_list_mem [OF elements_empty_list] by blast
  finally show ?thesis .
qed

lemma contact_props_mem:
  "(k, v) \<in> set (contact_props env x) \<longleftrightarrow>
     k = ''contact'' \<and>
     (\<exists>c p. x = PDict c \<and> map_of c ''public'' = Some p \<and> py_truthy p \<and>
        format_contact env x = Inr v)"
proof (cases "truthy_field (fields_of x) ''public''")
  case None
  then have "\<not> (\<exists>c p. x = PDict c \<and> map_of c ''public'' = Some p \<and> py_truthy p)"
    using truthy_field_fields_of [of x "''public''"] by auto
  with None show ?thesis by (auto simp add: contact_props_def)
next
  case (Some p)
  then obtain c where "x = PDict c" "map_of c ''public'' = Some p" "py_truthy p"
    by (auto simp add: truthy_field_fields_of)
  with Some show ?thesis
    by (cases "format_contact env x") (auto simp add: contact_props_def)
qed

lemma contacts_props_mem:
  "(k, v) \<in> set (contacts_props env kvs) \<longleftrightarrow>
     k = ''contact'' \<and>
     (\<exists>e info cs c p. map_of kvs ''event'' = Some (PDict e) \<and>
        map_of e ''event_contact_info'' = Some info \<and> py_iter info = Inr cs \<and>
        PDict c \<in> set cs \<and> map_of c ''public'' = Some p \<and> py_truthy p \<and>
        format_contact env (PDict c) = Inr v)"
proof -
  have "(k, v) \<in> set (contacts_props env kvs) \<longleftrightarrow>
      k = ''contact'' \<and>
      (\<exists>x \<in> set (elements (get_or (event_fields kvs) ''event_contact_info'' PNone)).
         \<exists>c p. x = PDict c \<and> map_of c ''public'' = Some p \<and> py_truthy p \<and>
           format_contact env x = Inr v)"
    by (auto simp add: contacts_props_def contact_props_mem)
  also have "(\<exists>x \<in> set (elements (get_or (event_fields kvs) ''event_contact_info'' PNone)).
         \<exists>c p. x = PDict c \<and> map_of c ''public'' = Some p \<and> py_truthy p \<and>
           format_contact env x = Inr v) \<longleftrightarrow>
     (\<exists>e info cs c p. map_of kvs ''event'' = Some (PDict e) \<and>
        map_of e ''event_contact_info'' = Some info \<and> py_iter info = Inr cs \<and>
        PDict c \<in> set cs \<and> map_of c ''public'' = Some p \<and> py_truthy p \<and>
        format_contact env (PDict c) = Inr v)"
    unfolding event_list_mem [OF elements_None] by blast
  finally show ?thesis .
qed

lemma dates_fields_Some:
  "map_of (dates_fields kvs) k = Some v \<longleftrightarrow>
     (\<exists>d. map_of kvs ''dates'' = Some (PDict d) \<and> map_of d k = Some v)"
proof (cases "map_of kvs ''dates''")
  case None
  then show ?thesis by (simp add: dates_fields_def get_or_def)
next
  case (Some w)
  then show ?thesis by (cases w) (simp_all add: dates_fields_def get_or_def)
qed

lemma event_props_mem:
  "(k, v) \<in> set (event_props env kvs g n s) \<longleftrightarrow>
     (k, v) = (''uid'', g) \<or> (k, v) = (''dtstamp'', utcnow env) \<or> (k, v) = (''summary'', n) \<or>
     (k, v) \<in> set (description_props kvs) \<or> (k, v) \<in> set (categories_props kvs) \<or>
     (k, v) = (''dtstart'', s) \<or> (k, v) \<in> set (opt_prop (dates_fields kvs) ''end'' ''dtend'') \<or>
     (k, v) \<in> set (rrule_props kvs) \<or> (k, v) \<in> set (attachments_props env kvs) \<or>
     (k, v) \<in> set (locations_props kvs) \<or> (k, v) \<in> set (links_props kvs) \<or>
     (k, v) \<in> set (contacts_props env kvs)"
  by (auto simp add: event_props_def)

lemma rrule_in_event_props:
  "(''rrule'', v) \<in> set (event_props env kvs g n s) \<longleftrightarrow> (''rrule'', v) \<in> set (rrule_props kvs)"
  by (simp add: event_props_mem description_props_mem categories_props_mem opt_prop_mem
      attachments_props_mem locations_props_mem location_props_mem links_props_mem
      contacts_props_mem)

lemma format_event_rrule:
  assumes "format_event env (PDict kvs) = Inr out" and "(''rrule'', v) \<in> set (properties out)"
  shows "\<exists>e d r f kw. map_of kvs ''event'' = Some (PDict e) \<and> map_of e ''dates'' = Some (PDict d) \<and>
        map_of d ''recurring_rule'' = Some (PDict r) \<and> map_of r ''frequency'' = Some f \<and>
        get_rrule_kwargs (PDict r) = Inr kw \<and> v = PDict kw"
proof -
  from format_event_Inr [OF assms(1)] obtain g n s
    where "out = Component ''VEVENT'' (event_props env kvs g n s) []"
    by blast
  with assms(2) have "(''rrule'', v) \<in> set (rrule_props kvs)"
    by (simp add: rrule_in_event_props)
  then show ?thesis by (simp add: rrule_props_mem)
qed

lemma format_event_location:
  assumes "format_event env (PDict kvs) = Inr out"
  shows "(''location'', v) \<in> set (properties out) \<longleftrightarrow>
                (\<exists>locations ls entry. map_of kvs ''location'' = Some locations \<and>
                   py_truthy locations \<and> py_iter locations = Inr ls \<and> PDict entry \<in> set ls \<and>
                   map_of entry ''name'' = Some v \<and> py_truthy v)"
proof -
  from format_event_Inr [OF assms] obtain g n s
    where out: "properties out = event_props env kvs g n s"
    by auto
  have "(''location'', v) \<in> set (properties out) \<longleftrightarrow> (''location'', v) \<in> set (locations_props kvs)"
    unfolding out
    by (simp add: event_props_mem description_props_mem categories_props_mem opt_prop_mem
      rrule_props_mem attachments_props_mem links_props_mem contacts_props_mem)
  also have "\<dots> \<longleftrightarrow> (\<exists>locations ls loc. map_of kvs ''location'' = Some locations \<and>
      py_truthy locations \<and> py_iter locations = Inr ls \<and> loc \<in> set ls \<and>
      (\<exists>d. loc = PDict d \<and> map_of d ''name'' = Some v \<and> py_truthy v))"
    by (simp add: locations_props_mem location_props_mem)
  also have "\<dots> \<longleftrightarrow> (\<exists>locations ls entry. map_of kvs ''location'' = Some locations \<and>
                   py_truthy locations \<and> py_iter locations = Inr ls \<and> PDict entry \<in> set ls \<and>
                   map_of entry ''name'' = Some v \<and> py_truthy v)"
    by blast
  finally show ?thesis .
qed

lemma format_event_geo:
  assumes "format_event env (PDict kvs) = Inr out"
  shows "(''geo'', v) \<in> set (properties out) \<longleftrightarrow>
                (\<exists>locations ls entry c lat lon. map_of kvs ''location'' = Some locations \<and>
                   py_truthy locations \<and> py_iter locations = Inr ls \<and> PDict entry \<in> set ls \<and>
                   map_of entry ''location'' = Some (PDict c) \<and> map_of c ''lat'' = Some lat \<and>
                   map_of c ''lon'' = Some lon \<and> v = PTuple [lat, lon])"
proof -
  from format_event_Inr [OF assms] obtain g n s
    where out: "properties out = event_props env kvs g n s"
    by auto
  have "(''geo'', v) \<in> set (properties out) \<longleftrightarrow> (''geo'', v) \<in> set (locations_props kvs)"
    unfolding out
    by (simp add: event_props_mem description_props_mem categories_props_mem opt_prop_mem
      rrule_props_mem attachments_props_mem links_props_mem contacts_props_mem)
  also have "\<dots> \<longleftrightarrow> (\<exists>locations ls loc. map_of kvs ''location'' = Some locations \<and>
      py_truthy locations \<and> py_iter locations = Inr ls \<and> loc \<in> set ls \<and>
      (\<exists>d c lat lon. loc = PDict d \<and> map_of d ''location'' = Some (PDict c) \<and>
         map_of c ''lat'' = Some lat \<and> map_of c ''lon'' = Some lon \<and> v = PTuple [lat, lon]))"
    by (simp add: locations_props_mem location_props_mem)
  also have "\<dots> \<longleftrightarrow> (\<exists>locations ls entry c lat lon. map_of kvs ''location'' = Some locations \<and>
                   py_truthy locations \<and> py_iter locations = Inr ls \<and> PDict entry \<in> set ls \<and>
                   map_of entry ''location'' = Some (PDict c) \<and> map_of c ''lat'' = Some lat \<and>
                   map_of c ''lon'' = Some lon \<and> v = PTuple [lat, lon])"
    by blast
  finally show ?thesis .
qed

subsection \<open>The contact line\<close>







subsection \<open>The examples\<close>

text \<open>
  The definitions that the simplifier unfolds to run the formatter on a concrete
  record, and the two example runs.
\<close>

lemmas formatter_defs =
  format_item_def calendar_of_item_def format_event_def guid_def add_description_def
  add_categories_def add_dates_def add_rrule_def add_attachments_def add_attachment_def
  add_geo_def add_location_def add_links_def add_contacts_def add_contact_def
  format_contact_def add_if_truthy_def get_rrule_kwargs_def copy_if_truthy_def
  get_or_def Calendar_def Event_def VERSION_def PRODID_def

lemma format_item_minimal:
  "format_item example_collaborators minimal_item =
     Inr (Component ''VCALENDAR'' [(''version'', PStr ''2.0''), (''prodid'', PStr ''Newshub'')]
           [Component ''VEVENT''
              [(''uid'', PStr ''urn:event:1''), (''dtstamp'', PDatetime 1500000000),
               (''summary'', PStr ''Press conference''), (''dtstart'', PDatetime 1500003600)]
              []])"
  by (simp add: minimal_item_def example_collaborators_def formatter_defs)

lemmas typing_defs =
  well_typed_def event_ok_def list_of_def location_ok_def event_fields_def dates_fields_def
  get_or_def

lemma format_event_example:
  "format_event example_collaborators (PDict example_fields) = Inr example_event"
  by (simp add: example_fields_def example_event_def example_collaborators_def formatter_defs)

section \<open>The identifier of an item\<close>

text \<open>
  C2, as stated, asks \<^verbatim>\<open>guid\<close> to fail on a record that has no \<^verbatim>\<open>guid\<close>, no
  \<^verbatim>\<open>event.guid\<close> and no \<^verbatim>\<open>_id\<close>. It does not: every lookup is a \<^verbatim>\<open>get\<close>, and
  the innermost one, \<^verbatim>\<open>item.get('_id')\<close>, yields \<^verbatim>\<open>None\<close>. Here is a record with a
  name only.
\<close>

theorem guid_without_identifier_is_None:
  "guid (PDict [(''name'', PStr ''Press conference'')]) = Inr PNone"
  by (simp add: guid_def get_or_def)

text \<open>
  C2, amended: for a record whose \<^verbatim>\<open>event\<close> is a dictionary \<open>ev\<close> or is absent
  (\<open>ev\<close> empty), \<^verbatim>\<open>guid\<close> returns the record's own \<^verbatim>\<open>guid\<close> if that key is present;
  otherwise the \<^verbatim>\<open>guid\<close> of \<^verbatim>\<open>event\<close> if present; otherwise the record's \<^verbatim>\<open>_id\<close> if
  present; and \<^verbatim>\<open>None\<close>, without failing, when none of the three is present.
\<close>

theorem guid_resolution:
  assumes "map_of kvs ''event'' = Some (PDict ev) \<or> (map_of kvs ''event'' = None \<and> ev = [])"
  shows "guid (PDict kvs) =
           Inr (case map_of kvs ''guid'' of Some g \<Rightarrow> g
                | None \<Rightarrow> (case map_of ev ''guid'' of Some g \<Rightarrow> g
                | None \<Rightarrow> (case map_of kvs ''_id'' of Some pk \<Rightarrow> pk
                | None \<Rightarrow> PNone)))"
  using assms by (auto simp add: guid_def get_or_def split: option.splits)

theorem guid_resolution_witness:
  "guid (PDict [(''_id'', PStr ''urn:1''), (''event'', PDict [(''guid'', PStr ''urn:2'')])])
     = Inr (PStr ''urn:2'')
   \<and> guid (PDict [(''_id'', PStr ''urn:1'')]) = Inr (PStr ''urn:1'')"
  using guid_resolution [of "[(''_id'', PStr ''urn:1''), (''event'', PDict [(''guid'', PStr ''urn:2'')])]"
      "[(''guid'', PStr ''urn:2'')]"]
    guid_resolution [of "[(''_id'', PStr ''urn:1'')]" "[]"]
  by simp

section \<open>The recurrence parameters\<close>

text \<open>
  C5, as stated, has every parameter whose source field is present included with its
  value. \<^verbatim>\<open>get_rrule_kwargs\<close> tests \<^verbatim>\<open>rrule.get('count')\<close> for truth, so a \<^verbatim>\<open>count\<close>
  that is present with the value 0 is left out.
\<close>

theorem get_rrule_kwargs_drops_zero_count:
  "map_of [(''frequency'', PStr ''DAILY''), (''count'', PInt 0)] ''count'' = Some (PInt 0)
   \<and> get_rrule_kwargs (PDict [(''frequency'', PStr ''DAILY''), (''count'', PInt 0)])
       = Inr [(''freq'', PStr ''DAILY'')]"
  by (simp add: get_rrule_kwargs_dict truthy_field_def)

text \<open>
  C5, amended: for a recurrence mapping with a \<^verbatim>\<open>frequency\<close>, \<^verbatim>\<open>get_rrule_kwargs\<close>
  returns keyword parameters in which \<^verbatim>\<open>freq\<close> is the value of \<^verbatim>\<open>frequency\<close>, each of
  \<^verbatim>\<open>count\<close>, \<^verbatim>\<open>interval\<close> and \<^verbatim>\<open>until\<close> is the value of the source field of that name
  when the field is present and true, and left out when it is absent, \<^verbatim>\<open>None\<close>, zero or
  empty, and there is no other parameter. For \<^verbatim>\<open>{"frequency": "DAILY", "count": 5}\<close> the
  parameters are \<^verbatim>\<open>freq\<close> = DAILY and \<^verbatim>\<open>count\<close> = 5, with no \<^verbatim>\<open>interval\<close> and no
  \<^verbatim>\<open>until\<close>.
\<close>

theorem get_rrule_kwargs_params:
  assumes "map_of kvs ''frequency'' = Some f"
  shows "(\<exists>kwargs. get_rrule_kwargs (PDict kvs) = Inr kwargs \<and>
            map_of kwargs = (\<lambda>k. if k = ''freq'' then Some f
                                else if k = ''count'' \<or> k = ''interval'' \<or> k = ''until''
                                     then truthy_field kvs k else None))
         \<and> get_rrule_kwargs (PDict [(''frequency'', PStr ''DAILY''), (''count'', PInt 5)])
             = Inr [(''freq'', PStr ''DAILY''), (''count'', PInt 5)]"
proof
  show "\<exists>kwargs. get_rrule_kwargs (PDict kvs) = Inr kwargs \<and>
            map_of kwargs = (\<lambda>k. if k = ''freq'' then Some f
                                else if k = ''count'' \<or> k = ''interval'' \<or> k = ''until''
                                     then truthy_field kvs k else None)"
    using assms
    by (auto simp add: get_rrule_kwargs_dict Let_def update_conv' fun_eq_iff
        split: option.splits)
  show "get_rrule_kwargs (PDict [(''frequency'', PStr ''DAILY''), (''count'', PInt 5)])
          = Inr [(''freq'', PStr ''DAILY''), (''count'', PInt 5)]"
    by (simp add: get_rrule_kwargs_dict truthy_field_def)
qed

theorem get_rrule_kwargs_params_witness:
  "map_of [(''frequency'', PStr ''WEEKLY''), (''interval'', PInt 2), (''until'', PNone)]
     ''frequency'' = Some (PStr ''WEEKLY'')
   \<and> (\<exists>kwargs.
        get_rrule_kwargs
          (PDict [(''frequency'', PStr ''WEEKLY''), (''interval'', PInt 2), (''until'', PNone)])
          = Inr kwargs
        \<and> map_of kwargs ''freq'' = Some (PStr ''WEEKLY'')
        \<and> map_of kwargs ''interval'' = Some (PInt 2)
        \<and> map_of kwargs ''until'' = None
        \<and> map_of kwargs ''count'' = None)"
  using get_rrule_kwargs_params
    [of "[(''frequency'', PStr ''WEEKLY''), (''interval'', PInt 2), (''until'', PNone)]"
        "PStr ''WEEKLY''"]
  by (auto simp add: truthy_field_def)

section \<open>The document of a successful call\<close>

text \<open>
  C9: when \<^verbatim>\<open>format_item\<close> returns, what it returns is the serialisation of a calendar
  with the two headers \<^verbatim>\<open>version\<close> = "2.0" and \<^verbatim>\<open>prodid\<close> = "Newshub" and with exactly
  one subcomponent, the \<^verbatim>\<open>VEVENT\<close> that \<^verbatim>\<open>format_event\<close> built (which has no
  subcomponent of its own). That event has the properties \<^verbatim>\<open>uid\<close> (the value of
  \<^verbatim>\<open>guid\<close>), \<^verbatim>\<open>dtstamp\<close> (the clock's time), \<^verbatim>\<open>summary\<close> (the item's \<^verbatim>\<open>name\<close>) and
  \<^verbatim>\<open>dtstart\<close> (the item's \<^verbatim>\<open>dates.start\<close>).
\<close>

theorem format_item_document:
  assumes "format_item env item = Inr doc"
  shows "\<exists>kvs event g n s.
           item = PDict kvs \<and>
           doc = to_ical env (Component ''VCALENDAR''
                   [(''version'', PStr ''2.0''), (''prodid'', PStr ''Newshub'')] [event]) \<and>
           format_event env item = Inr event \<and>
           comp_name event = ''VEVENT'' \<and> subcomponents event = [] \<and>
           guid item = Inr g \<and> (''uid'', g) \<in> set (properties event) \<and>
           (''dtstamp'', utcnow env) \<in> set (properties event) \<and>
           map_of kvs ''name'' = Some n \<and> (''summary'', n) \<in> set (properties event) \<and>
           map_of (dates_fields kvs) ''start'' = Some s \<and>
           (''dtstart'', s) \<in> set (properties event)"
proof -
  from assms obtain event where ev: "format_event env item = Inr event"
    and doc: "doc = to_ical env (Component ''VCALENDAR''
                [(''version'', PStr ''2.0''), (''prodid'', PStr ''Newshub'')] [event])"
    by (auto simp add: format_item_Inr)
  from format_event_Inr_dict [OF ev] obtain kvs where item: "item = PDict kvs"
    by (auto simp add: is_dict_conv)
  from format_event_Inr [OF ev [unfolded item]] obtain g n s
    where g: "guid (PDict kvs) = Inr g" and n: "map_of kvs ''name'' = Some n"
      and s: "map_of (dates_fields kvs) ''start'' = Some s"
      and event: "event = Component ''VEVENT'' (event_props env kvs g n s) []"
    by blast
  have "(''uid'', g) \<in> set (properties event)" "(''dtstamp'', utcnow env) \<in> set (properties event)"
    "(''summary'', n) \<in> set (properties event)" "(''dtstart'', s) \<in> set (properties event)"
    by (simp_all add: event event_props_def)
  with item doc ev g n s event show ?thesis by simp
qed

theorem format_item_document_witness:
  "format_item example_collaborators minimal_item =
     Inr (Component ''VCALENDAR'' [(''version'', PStr ''2.0''), (''prodid'', PStr ''Newshub'')]
           [Component ''VEVENT''
              [(''uid'', PStr ''urn:event:1''), (''dtstamp'', PDatetime 1500000000),
               (''summary'', PStr ''Press conference''), (''dtstart'', PDatetime 1500003600)]
              []])
   \<and> (\<exists>kvs event g n s.
           minimal_item = PDict kvs \<and>
           format_event example_collaborators minimal_item = Inr event \<and>
           comp_name event = ''VEVENT'' \<and> subcomponents event = [] \<and>
           guid minimal_item = Inr g \<and> (''uid'', g) \<in> set (properties event) \<and>
           (''dtstamp'', utcnow example_collaborators) \<in> set (properties event) \<and>
           map_of kvs ''name'' = Some n \<and> (''summary'', n) \<in> set (properties event) \<and>
           map_of (dates_fields kvs) ''start'' = Some s \<and>
           (''dtstart'', s) \<in> set (properties event))"
proof -
  note run = format_item_minimal
  from format_item_document [OF run] run show ?thesis by blast
qed

section \<open>Required fields\<close>

text \<open>
  C1: a record without \<^verbatim>\<open>name\<close>, or without \<^verbatim>\<open>start\<close> under \<^verbatim>\<open>dates\<close>
  (\<open>dates_fields\<close> is the dictionary under \<^verbatim>\<open>dates\<close>, empty when there is none), makes
  \<^verbatim>\<open>format_event\<close> and \<^verbatim>\<open>format_item\<close> raise: the result is an exception, never a
  document. For a record whose other fields have the types of the data model
  (\<open>well_typed\<close>), the exception is the \<^verbatim>\<open>KeyError\<close> of \<^verbatim>\<open>item['name']\<close> when the
  summary is set, and the \<^verbatim>\<open>KeyError\<close> of \<^verbatim>\<open>dates['start']\<close> when the start is set;
  this \<^verbatim>\<open>KeyError\<close> is what the specification calls MissingRequiredField.
\<close>

theorem missing_required_field:
  "(map_of kvs ''name'' = None \<or> map_of (dates_fields kvs) ''start'' = None \<longrightarrow>
      (\<exists>e. format_event env (PDict kvs) = Inl e) \<and> (\<exists>e. format_item env (PDict kvs) = Inl e))
   \<and> (well_typed kvs \<and> map_of kvs ''name'' = None \<longrightarrow>
        format_event env (PDict kvs) = Inl (KeyError ''name'') \<and>
        format_item env (PDict kvs) = Inl (KeyError ''name''))
   \<and> (well_typed kvs \<and> map_of kvs ''name'' \<noteq> None \<and> map_of (dates_fields kvs) ''start'' = None \<longrightarrow>
        format_event env (PDict kvs) = Inl (KeyError ''start'') \<and>
        format_item env (PDict kvs) = Inl (KeyError ''start''))"
proof (intro conjI impI)
  assume missing: "map_of kvs ''name'' = None \<or> map_of (dates_fields kvs) ''start'' = None"
  show fails: "\<exists>e. format_event env (PDict kvs) = Inl e"
  proof (cases "format_event env (PDict kvs)")
    case (Inl e)
    then show ?thesis by blast
  next
    case (Inr event)
    from format_event_Inr [OF this] missing show ?thesis by auto
  qed
  then show "\<exists>e. format_item env (PDict kvs) = Inl e"
    by (blast intro: format_item_Inl)
next
  assume a: "well_typed kvs \<and> map_of kvs ''name'' = None"
  then show e: "format_event env (PDict kvs) = Inl (KeyError ''name'')"
    by (simp add: format_event_typed_no_name)
  then show "format_item env (PDict kvs) = Inl (KeyError ''name'')"
    by (rule format_item_Inl)
next
  assume a: "well_typed kvs \<and> map_of kvs ''name'' \<noteq> None \<and> map_of (dates_fields kvs) ''start'' = None"
  then show e: "format_event env (PDict kvs) = Inl (KeyError ''start'')"
    by (auto simp add: format_event_typed_no_start)
  then show "format_item env (PDict kvs) = Inl (KeyError ''start'')"
    by (rule format_item_Inl)
qed

theorem missing_required_field_witness:
  "map_of [(''_id'', PStr ''urn:event:1''), (''dates'', PDict [(''start'', PDatetime 1500003600)])]
     ''name'' = None
   \<and> well_typed [(''_id'', PStr ''urn:event:1''),
                  (''dates'', PDict [(''start'', PDatetime 1500003600)])]
   \<and> format_item example_collaborators
        (PDict [(''_id'', PStr ''urn:event:1''),
                (''dates'', PDict [(''start'', PDatetime 1500003600)])])
       = Inl (KeyError ''name'')
   \<and> map_of (dates_fields [(''name'', PStr ''Press conference''),
                             (''dates'', PDict [(''end'', PDatetime 1500007200)])])
        ''start'' = None
   \<and> well_typed [(''name'', PStr ''Press conference''),
                  (''dates'', PDict [(''end'', PDatetime 1500007200)])]
   \<and> format_item example_collaborators
        (PDict [(''name'', PStr ''Press conference''),
                (''dates'', PDict [(''end'', PDatetime 1500007200)])])
       = Inl (KeyError ''start'')"
proof -
  let ?a = "[(''_id'', PStr ''urn:event:1''), (''dates'', PDict [(''start'', PDatetime 1500003600)])]"
  let ?b = "[(''name'', PStr ''Press conference''), (''dates'', PDict [(''end'', PDatetime 1500007200)])]"
  have a: "map_of ?a ''name'' = None" "well_typed ?a"
    by (simp_all add: typing_defs)
  have b: "map_of ?b ''name'' \<noteq> None" "map_of (dates_fields ?b) ''start'' = None" "well_typed ?b"
    by (simp_all add: typing_defs)
  from missing_required_field [of ?a example_collaborators] a
  have "format_item example_collaborators (PDict ?a) = Inl (KeyError ''name'')"
    by blast
  moreover from missing_required_field [of ?b example_collaborators] b
  have "format_item example_collaborators (PDict ?b) = Inl (KeyError ''start'')"
    by blast
  ultimately show ?thesis using a b by blast
qed

section \<open>Contacts without a contact list\<close>

text \<open>
  C3: for a record with \<^verbatim>\<open>name\<close> and \<^verbatim>\<open>dates.start\<close> whose \<^verbatim>\<open>event\<close> dictionary has no
  \<^verbatim>\<open>event_contact_info\<close>, the contacts step raises whatever event it is given (the loop
  runs over \<^verbatim>\<open>None\<close>, a \<^verbatim>\<open>TypeError\<close> in Python, MissingField in the
  specification), so \<^verbatim>\<open>format_event\<close> never returns an event; for a record whose other
  fields have the types of the data model every earlier step passes, and the exception
  of \<^verbatim>\<open>format_event\<close> and \<^verbatim>\<open>format_item\<close> is the one of the contacts step.
\<close>

theorem missing_contact_info_fails:
  assumes "map_of kvs ''name'' = Some n" and "map_of (dates_fields kvs) ''start'' = Some s"
    and "map_of kvs ''event'' = Some (PDict e)" and "map_of e ''event_contact_info'' = None"
  shows "(\<forall>event. add_contacts env event (PDict kvs) = Inl TypeError)
         \<and> (\<exists>err. format_event env (PDict kvs) = Inl err)
         \<and> (well_typed kvs \<longrightarrow>
              format_event env (PDict kvs) = Inl TypeError \<and>
              format_item env (PDict kvs) = Inl TypeError)"
proof (intro conjI impI allI)
  show contacts: "add_contacts env event (PDict kvs) = Inl TypeError" for event
    using assms(3,4) by (simp add: add_contacts_def get_or_def)
  show "\<exists>err. format_event env (PDict kvs) = Inl err"
  proof (cases "format_event env (PDict kvs)")
    case (Inl err)
    then show ?thesis by blast
  next
    case (Inr out)
    then obtain event where "add_contacts env event (PDict kvs) = Inr out"
      unfolding format_event_def bind_result_Inr_iff by blast
    with contacts show ?thesis by simp
  qed
  assume "well_typed kvs"
  from format_event_typed [OF this assms(1,2), of env] contacts
  show "format_event env (PDict kvs) = Inl TypeError"
    by auto
  then show "format_item env (PDict kvs) = Inl TypeError"
    by (rule format_item_Inl)
qed

theorem missing_contact_info_fails_witness:
  "well_typed [(''name'', PStr ''Press conference''),
               (''dates'', PDict [(''start'', PDatetime 1500003600)]),
               (''event'', PDict [(''links'', PList [PStr ''https://example.org/''])])]
   \<and> format_event example_collaborators
        (PDict [(''name'', PStr ''Press conference''),
                (''dates'', PDict [(''start'', PDatetime 1500003600)]),
                (''event'', PDict [(''links'', PList [PStr ''https://example.org/''])])])
       = Inl TypeError"
proof -
  let ?e = "[(''links'', PList [PStr ''https://example.org/''])]"
  let ?kvs = "[(''name'', PStr ''Press conference''),
               (''dates'', PDict [(''start'', PDatetime 1500003600)]),
               (''event'', PDict ?e)]"
  have wt: "well_typed ?kvs" by (simp add: typing_defs)
  have "map_of ?kvs ''name'' = Some (PStr ''Press conference'')"
    "map_of (dates_fields ?kvs) ''start'' = Some (PDatetime 1500003600)"
    "map_of ?kvs ''event'' = Some (PDict ?e)" "map_of ?e ''event_contact_info'' = None"
    by (simp_all add: typing_defs)
  from missing_contact_info_fails [OF this, of example_collaborators] wt
  show ?thesis by blast
qed

section \<open>Records without a recurrence rule\<close>



section \<open>A recurrence rule without a frequency\<close>

text \<open>
  C10: when the path \<^verbatim>\<open>item['event']['dates']['recurring_rule']\<close> leads to a mapping
  that has no \<^verbatim>\<open>frequency\<close>, \<^verbatim>\<open>get_rrule_kwargs\<close> raises the \<^verbatim>\<open>KeyError\<close> of
  \<^verbatim>\<open>rrule['frequency']\<close> inside the \<^verbatim>\<open>try\<close> block, the handler catches it, and the
  recurrence step returns the event as it got it, so whatever comes after it runs on
  that event; an event that \<^verbatim>\<open>format_event\<close> returns for such a record has no \<^verbatim>\<open>rrule\<close>
  property.
\<close>

theorem recurrence_without_frequency_is_skipped:
  assumes "map_of kvs ''event'' = Some (PDict e)" and "map_of e ''dates'' = Some (PDict d)"
    and "map_of d ''recurring_rule'' = Some (PDict r)" and "map_of r ''frequency'' = None"
  shows "get_rrule_kwargs (PDict r) = Inl (KeyError ''frequency'')
         \<and> (\<forall>event. add_rrule event (PDict kvs) = Inr event)
         \<and> (\<forall>event rest. bind_result (add_rrule event (PDict kvs)) rest = rest event)
         \<and> (\<forall>out v. format_event env (PDict kvs) = Inr out \<longrightarrow>
               (''rrule'', v) \<notin> set (properties out))"
proof -
  have raise: "get_rrule_kwargs (PDict r) = Inl (KeyError ''frequency'')"
    using assms(4) by (simp add: get_rrule_kwargs_dict)
  have skip: "add_rrule event (PDict kvs) = Inr event" for event
    using assms(1-3) raise by (simp add: add_rrule_dict)
  have "(''rrule'', v) \<notin> set (properties out)" if "format_event env (PDict kvs) = Inr out" for out v
  proof
    assume "(''rrule'', v) \<in> set (properties out)"
    from format_event_rrule [OF that this] assms show False by auto
  qed
  with raise skip show ?thesis by simp
qed

theorem recurrence_without_frequency_is_skipped_witness:
  "get_rrule_kwargs (PDict [(''count'', PInt 5)]) = Inl (KeyError ''frequency'')
   \<and> format_event example_collaborators
       (PDict [(''guid'', PStr ''urn:event:2''), (''name'', PStr ''Weekly briefing''),
               (''dates'', PDict [(''start'', PDatetime 1500003600)]),
               (''event'', PDict [(''dates'', PDict [(''recurring_rule'', PDict [(''count'', PInt 5)])]),
                                  (''links'', PList [PStr ''https://example.org/'']),
                                  (''event_contact_info'', PList [])])])
     = Inr (Component ''VEVENT''
             [(''uid'', PStr ''urn:event:2''), (''dtstamp'', PDatetime 1500000000),
              (''summary'', PStr ''Weekly briefing''), (''dtstart'', PDatetime 1500003600),
              (''url'', PStr ''https://example.org/'')] [])"
proof -
  let ?r = "[(''count'', PInt 5)]"
  let ?d = "[(''recurring_rule'', PDict ?r)]"
  let ?e = "[(''dates'', PDict ?d), (''links'', PList [PStr ''https://example.org/'']),
             (''event_contact_info'', PList [])]"
  let ?kvs = "[(''guid'', PStr ''urn:event:2''), (''name'', PStr ''Weekly briefing''),
               (''dates'', PDict [(''start'', PDatetime 1500003600)]), (''event'', PDict ?e)]"
  have "map_of ?kvs ''event'' = Some (PDict ?e)" "map_of ?e ''dates'' = Some (PDict ?d)"
    "map_of ?d ''recurring_rule'' = Some (PDict ?r)" "map_of ?r ''frequency'' = None"
    by simp_all
  from recurrence_without_frequency_is_skipped [OF this, of example_collaborators]
  have raise: "get_rrule_kwargs (PDict ?r) = Inl (KeyError ''frequency'')"
    and skip: "\<And>event. add_rrule event (PDict ?kvs) = Inr event"
    by blast+
  have "format_event example_collaborators (PDict ?kvs)
     = Inr (Component ''VEVENT''
             [(''uid'', PStr ''urn:event:2''), (''dtstamp'', PDatetime 1500000000),
              (''summary'', PStr ''Weekly briefing''), (''dtstart'', PDatetime 1500003600),
              (''url'', PStr ''https://example.org/'')] [])"
    unfolding format_event_def skip
    by (simp add: example_collaborators_def formatter_defs)
  with raise show ?thesis by simp
qed

section \<open>The value of a contact property\<close>



section \<open>Locations and coordinates\<close>

text \<open>
  C8: the \<^verbatim>\<open>for\<close> loop of \<^verbatim>\<open>format_event\<close> runs the same body on every entry of the list
  \<^verbatim>\<open>item['location']\<close>. For an entry whose \<^verbatim>\<open>location\<close> is absent or a mapping, the
  body does not raise and appends, in this order, a \<^verbatim>\<open>location\<close> property with the
  entry's \<^verbatim>\<open>name\<close> when the name is present and not empty, and a \<^verbatim>\<open>geo\<close> property with
  the pair of \<^verbatim>\<open>lat\<close> and \<^verbatim>\<open>lon\<close> when both are present under \<^verbatim>\<open>location\<close>; when
  either is missing there is no \<^verbatim>\<open>geo\<close> property and the name stays. The entry
  \<^verbatim>\<open>{"name": "HQ", "location": {"lat": 1.0}}\<close> adds the location HQ and nothing else. In
  an event that \<^verbatim>\<open>format_event\<close> returns, the \<^verbatim>\<open>location\<close> properties are exactly the
  non-empty names of the entries, and the \<^verbatim>\<open>geo\<close> properties are exactly the pairs of the
  entries that have both coordinates.
  (A \<^verbatim>\<open>location\<close> that is present and is not a mapping is outside the data model:
  \<^verbatim>\<open>loc['location']['lat']\<close> then raises a \<^verbatim>\<open>TypeError\<close>, which the handler does not
  catch; see \<open>add_location_iff\<close>.)
\<close>

theorem location_name_and_coordinates:
  assumes "map_of loc ''location'' = None \<or> (\<exists>c. map_of loc ''location'' = Some (PDict c))"
  shows "(\<exists>event'. add_location event (PDict loc) = Inr event' \<and>
            comp_name event' = comp_name event \<and> subcomponents event' = subcomponents event \<and>
            properties event' =
              properties event
              @ (case map_of loc ''name'' of
                   None \<Rightarrow> []
                 | Some name \<Rightarrow> if py_truthy name then [(''location'', name)] else [])
              @ (case map_of loc ''location'' of
                   Some (PDict c) \<Rightarrow>
                     (case (map_of c ''lat'', map_of c ''lon'') of
                        (Some lat, Some lon) \<Rightarrow> [(''geo'', PTuple [lat, lon])]
                      | other \<Rightarrow> [])
                 | other \<Rightarrow> []))
         \<and> add_location event
               (PDict [(''name'', PStr ''HQ''), (''location'', PDict [(''lat'', PFloat 1)])])
             = Inr (comp_add event ''location'' (PStr ''HQ''))
         \<and> (\<forall>ls. map_of kvs ''location'' = Some (PList ls) \<longrightarrow>
               add_geo event (PDict kvs) = for_each add_location event ls)
         \<and> (\<forall>out v. format_event env (PDict kvs) = Inr out \<longrightarrow>
               ((''location'', v) \<in> set (properties out) \<longleftrightarrow>
                (\<exists>locations ls entry. map_of kvs ''location'' = Some locations \<and>
                   py_truthy locations \<and> py_iter locations = Inr ls \<and> PDict entry \<in> set ls \<and>
                   map_of entry ''name'' = Some v \<and> py_truthy v)))
         \<and> (\<forall>out v. format_event env (PDict kvs) = Inr out \<longrightarrow>
               ((''geo'', v) \<in> set (properties out) \<longleftrightarrow>
                (\<exists>locations ls entry c lat lon. map_of kvs ''location'' = Some locations \<and>
                   py_truthy locations \<and> py_iter locations = Inr ls \<and> PDict entry \<in> set ls \<and>
                   map_of entry ''location'' = Some (PDict c) \<and> map_of c ''lat'' = Some lat \<and>
                   map_of c ''lon'' = Some lon \<and> v = PTuple [lat, lon])))"
proof (intro conjI allI impI)
  have ok: "location_ok (PDict loc)"
    using assms by (auto simp add: location_ok_def)
  have "location_props (PDict loc) =
      (case map_of loc ''name'' of
         None \<Rightarrow> []
       | Some name \<Rightarrow> if py_truthy name then [(''location'', name)] else [])
      @ (case map_of loc ''location'' of
           Some (PDict c) \<Rightarrow>
             (case (map_of c ''lat'', map_of c ''lon'') of
                (Some lat, Some lon) \<Rightarrow> [(''geo'', PTuple [lat, lon])]
              | other \<Rightarrow> [])
         | other \<Rightarrow> [])"
    using assms
    by (auto simp add: location_props_def geo_props_def opt_prop_def truthy_field_def
        split: option.splits)
  with ok show "\<exists>event'. add_location event (PDict loc) = Inr event' \<and>
            comp_name event' = comp_name event \<and> subcomponents event' = subcomponents event \<and>
            properties event' =
              properties event
              @ (case map_of loc ''name'' of
                   None \<Rightarrow> []
                 | Some name \<Rightarrow> if py_truthy name then [(''location'', name)] else [])
              @ (case map_of loc ''location'' of
                   Some (PDict c) \<Rightarrow>
                     (case (map_of c ''lat'', map_of c ''lon'') of
                        (Some lat, Some lon) \<Rightarrow> [(''geo'', PTuple [lat, lon])]
                      | other \<Rightarrow> [])
                 | other \<Rightarrow> [])"
    by (simp add: add_location_iff)
  show "add_location event
               (PDict [(''name'', PStr ''HQ''), (''location'', PDict [(''lat'', PFloat 1)])])
             = Inr (comp_add event ''location'' (PStr ''HQ''))"
    by (simp add: add_location_iff location_ok_def location_props_def geo_props_def
        opt_prop_def truthy_field_def comp_add_extend)
next
  fix ls assume "map_of kvs ''location'' = Some (PList ls)"
  then show "add_geo event (PDict kvs) = for_each add_location event ls"
    by (cases ls) (simp_all add: add_geo_def get_or_def)
next
  fix out v assume run: "format_event env (PDict kvs) = Inr out"
  show "(''location'', v) \<in> set (properties out) \<longleftrightarrow>
                (\<exists>locations ls entry. map_of kvs ''location'' = Some locations \<and>
                   py_truthy locations \<and> py_iter locations = Inr ls \<and> PDict entry \<in> set ls \<and>
                   map_of entry ''name'' = Some v \<and> py_truthy v)"
    by (rule format_event_location [OF run])
next
  fix out v assume run: "format_event env (PDict kvs) = Inr out"
  show "(''geo'', v) \<in> set (properties out) \<longleftrightarrow>
                (\<exists>locations ls entry c lat lon. map_of kvs ''location'' = Some locations \<and>
                   py_truthy locations \<and> py_iter locations = Inr ls \<and> PDict entry \<in> set ls \<and>
                   map_of entry ''location'' = Some (PDict c) \<and> map_of c ''lat'' = Some lat \<and>
                   map_of c ''lon'' = Some lon \<and> v = PTuple [lat, lon])"
    by (rule format_event_geo [OF run])
qed

theorem location_name_and_coordinates_witness:
  "(\<exists>event'. add_location (Component ''VEVENT'' [] [])
       (PDict [(''name'', PStr ''Town hall''),
               (''location'', PDict [(''lat'', PFloat 50), (''lon'', PFloat 14)])]) = Inr event'
      \<and> properties event' =
          [(''location'', PStr ''Town hall''), (''geo'', PTuple [PFloat 50, PFloat 14])])
   \<and> (\<exists>event'. add_location (Component ''VEVENT'' [] [])
       (PDict [(''name'', PStr ''Town hall'')]) = Inr event'
      \<and> properties event' = [(''location'', PStr ''Town hall'')])
   \<and> add_geo (Component ''VEVENT'' [] [])
        (PDict [(''location'', PList [PDict [(''name'', PStr ''HQ''),
                                             (''location'', PDict [(''lat'', PFloat 1)])]])])
      = Inr (Component ''VEVENT'' [(''location'', PStr ''HQ'')] [])
   \<and> format_event example_collaborators (PDict example_fields) = Inr example_event
   \<and> (''location'', PStr ''Town hall'') \<in> set (properties example_event)
   \<and> (''geo'', PTuple [PFloat 50, PFloat 14]) \<in> set (properties example_event)
   \<and> (\<exists>locations ls entry. map_of example_fields ''location'' = Some locations \<and>
         py_truthy locations \<and> py_iter locations = Inr ls \<and> PDict entry \<in> set ls \<and>
         map_of entry ''name'' = Some (PStr ''Town hall''))
   \<and> (\<exists>locations ls entry c. map_of example_fields ''location'' = Some locations \<and>
         py_truthy locations \<and> py_iter locations = Inr ls \<and> PDict entry \<in> set ls \<and>
         map_of entry ''location'' = Some (PDict c) \<and> map_of c ''lat'' = Some (PFloat 50) \<and>
         map_of c ''lon'' = Some (PFloat 14))"
proof -
  let ?a = "[(''name'', PStr ''Town hall''),
             (''location'', PDict [(''lat'', PFloat 50), (''lon'', PFloat 14)])]"
  let ?b = "[(''name'', PStr ''Town hall'')]"
  let ?hq = "[(''name'', PStr ''HQ''), (''location'', PDict [(''lat'', PFloat 1)])]"
  let ?item = "[(''location'', PList [PDict ?hq])]"
  let ?E = "Component ''VEVENT'' [] []"
  have a: "map_of ?a ''location'' = None \<or> (\<exists>c. map_of ?a ''location'' = Some (PDict c))"
    by simp
  have b: "map_of ?b ''location'' = None \<or> (\<exists>c. map_of ?b ''location'' = Some (PDict c))"
    by simp
  note run = format_event_example
  note A = location_name_and_coordinates [OF a, of ?E example_fields example_collaborators]
  note B = location_name_and_coordinates [OF b, of ?E ?item example_collaborators]
  from A [THEN conjunct1]
  have body_a: "\<exists>event'. add_location ?E (PDict ?a) = Inr event'
      \<and> properties event' =
          [(''location'', PStr ''Town hall''), (''geo'', PTuple [PFloat 50, PFloat 14])]"
    by auto
  from B [THEN conjunct1]
  have body_b: "\<exists>event'. add_location ?E (PDict ?b) = Inr event'
      \<and> properties event' = [(''location'', PStr ''Town hall'')]"
    by auto
  have "map_of ?item ''location'' = Some (PList [PDict ?hq])"
    by simp
  with B [THEN conjunct2, THEN conjunct2, THEN conjunct1]
  have "add_geo ?E (PDict ?item) = for_each add_location ?E [PDict ?hq]"
    by blast
  moreover from B [THEN conjunct2, THEN conjunct1]
  have "add_location ?E (PDict ?hq) = Inr (Component ''VEVENT'' [(''location'', PStr ''HQ'')] [])"
    by simp
  ultimately have loop: "add_geo ?E (PDict ?item)
      = Inr (Component ''VEVENT'' [(''location'', PStr ''HQ'')] [])"
    by simp
  have mem: "(''location'', PStr ''Town hall'') \<in> set (properties example_event)"
    "(''geo'', PTuple [PFloat 50, PFloat 14]) \<in> set (properties example_event)"
    by (simp_all add: example_event_def)
  from A [THEN conjunct2, THEN conjunct2, THEN conjunct2, THEN conjunct1] run
  have "(''location'', PStr ''Town hall'') \<in> set (properties example_event) \<longleftrightarrow>
      (\<exists>locations ls entry. map_of example_fields ''location'' = Some locations \<and>
         py_truthy locations \<and> py_iter locations = Inr ls \<and> PDict entry \<in> set ls \<and>
         map_of entry ''name'' = Some (PStr ''Town hall'') \<and> py_truthy (PStr ''Town hall''))"
    by blast
  with mem(1) have name: "\<exists>locations ls entry. map_of example_fields ''location'' = Some locations \<and>
         py_truthy locations \<and> py_iter locations = Inr ls \<and> PDict entry \<in> set ls \<and>
         map_of entry ''name'' = Some (PStr ''Town hall'')"
    by blast
  from A [THEN conjunct2, THEN conjunct2, THEN conjunct2, THEN conjunct2] run
  have "(''geo'', PTuple [PFloat 50, PFloat 14]) \<in> set (properties example_event) \<longleftrightarrow>
      (\<exists>locations ls entry c lat lon. map_of example_fields ''location'' = Some locations \<and>
         py_truthy locations \<and> py_iter locations = Inr ls \<and> PDict entry \<in> set ls \<and>
         map_of entry ''location'' = Some (PDict c) \<and> map_of c ''lat'' = Some lat \<and>
         map_of c ''lon'' = Some lon \<and> PTuple [PFloat 50, PFloat 14] = PTuple [lat, lon])"
    by blast
  with mem(2) obtain locations ls entry c lat lon
    where "map_of example_fields ''location'' = Some locations" "py_truthy locations"
      "py_iter locations = Inr ls" "PDict entry \<in> set ls"
      "map_of entry ''location'' = Some (PDict c)" "map_of c ''lat'' = Some lat"
      "map_of c ''lon'' = Some lon" "PTuple [PFloat 50, PFloat 14] = PTuple [lat, lon]"
    by blast
  then have coords: "\<exists>locations ls entry c. map_of example_fields ''location'' = Some locations \<and>
         py_truthy locations \<and> py_iter locations = Inr ls \<and> PDict entry \<in> set ls \<and>
         map_of entry ''location'' = Some (PDict c) \<and> map_of c ''lat'' = Some (PFloat 50) \<and>
         map_of c ''lon'' = Some (PFloat 14)"
    by auto
  from body_a body_b loop run mem name coords show ?thesis
    by (intro conjI)
qed

section \<open>Optional properties\<close>

text \<open>
  C4, as stated, has no \<^verbatim>\<open>url\<close> property for an empty link and no \<^verbatim>\<open>contact\<close> property
  for a public contact without name, organisation and email. The two loops add a
  property for every link and for every public contact, whatever the value: here a
  record with one empty link and one public contact that has nothing else.
\<close>

theorem empty_link_and_empty_contact_are_emitted:
  "format_event example_collaborators
     (PDict [(''name'', PStr ''Press conference''),
             (''dates'', PDict [(''start'', PDatetime 1500003600)]),
             (''event'', PDict [(''links'', PList [PStr []]),
                                (''event_contact_info'', PList [PDict [(''public'', PBool True)]])])])
   = Inr (Component ''VEVENT''
           [(''uid'', PNone), (''dtstamp'', PDatetime 1500000000),
            (''summary'', PStr ''Press conference''), (''dtstart'', PDatetime 1500003600),
            (''url'', PStr []), (''contact'', PStr [])]
           [])"
  by (simp add: example_collaborators_def formatter_defs)

text \<open>
  C4, amended: in an event that \<^verbatim>\<open>format_event\<close> returns,
  \<^item> \<^verbatim>\<open>description\<close>, \<^verbatim>\<open>comment\<close> and \<^verbatim>\<open>priority\<close> are there only with the value of
    \<^verbatim>\<open>definition_long\<close>, \<^verbatim>\<open>ednote\<close> and \<^verbatim>\<open>priority\<close>, present and true (not \<^verbatim>\<open>None\<close>,
    zero or empty);
  \<^item> a \<^verbatim>\<open>categories\<close> value is the true \<^verbatim>\<open>name\<close> of one of the \<^verbatim>\<open>calendars\<close>;
  \<^item> \<^verbatim>\<open>dtend\<close> is the true \<^verbatim>\<open>end\<close> of \<^verbatim>\<open>dates\<close>;
  \<^item> \<^verbatim>\<open>rrule\<close> holds the parameters of the mapping at \<^verbatim>\<open>event.dates.recurring_rule\<close>,
    which has a \<^verbatim>\<open>frequency\<close>;
  \<^item> an \<^verbatim>\<open>attach\<close> value is the URL of the true \<^verbatim>\<open>media\<close> of one of \<^verbatim>\<open>event.files\<close>;
  \<^item> a \<^verbatim>\<open>location\<close> value is the true \<^verbatim>\<open>name\<close> of one of the entries of \<^verbatim>\<open>location\<close>;
  \<^item> a \<^verbatim>\<open>geo\<close> value is the pair of the \<^verbatim>\<open>lat\<close> and \<^verbatim>\<open>lon\<close> that both exist under the
    \<^verbatim>\<open>location\<close> of one of these entries;
  \<^item> the \<^verbatim>\<open>url\<close> values are the entries of \<^verbatim>\<open>event.links\<close>, all of them, an empty
    string too;
  \<^item> the \<^verbatim>\<open>contact\<close> values are the joined lines of the contacts of
    \<^verbatim>\<open>event.event_contact_info\<close> whose \<^verbatim>\<open>public\<close> is true, all of them, an empty line too.
\<close>

theorem optional_properties_sources:
  assumes "format_event env (PDict kvs) = Inr out"
  shows "(\<forall>v. (''description'', v) \<in> set (properties out) \<longrightarrow>
            map_of kvs ''definition_long'' = Some v \<and> py_truthy v)
       \<and> (\<forall>v. (''comment'', v) \<in> set (properties out) \<longrightarrow>
            map_of kvs ''ednote'' = Some v \<and> py_truthy v)
       \<and> (\<forall>v. (''priority'', v) \<in> set (properties out) \<longrightarrow>
            map_of kvs ''priority'' = Some v \<and> py_truthy v)
       \<and> (\<forall>v. (''categories'', v) \<in> set (properties out) \<longrightarrow>
            (\<exists>calendars cs c. map_of kvs ''calendars'' = Some calendars \<and>
               py_iter calendars = Inr cs \<and> PDict c \<in> set cs \<and>
               map_of c ''name'' = Some v \<and> py_truthy v))
       \<and> (\<forall>v. (''dtend'', v) \<in> set (properties out) \<longrightarrow>
            (\<exists>d. map_of kvs ''dates'' = Some (PDict d) \<and> map_of d ''end'' = Some v \<and> py_truthy v))
       \<and> (\<forall>v. (''rrule'', v) \<in> set (properties out) \<longrightarrow>
            (\<exists>e d r f kw. map_of kvs ''event'' = Some (PDict e) \<and>
               map_of e ''dates'' = Some (PDict d) \<and>
               map_of d ''recurring_rule'' = Some (PDict r) \<and> map_of r ''frequency'' = Some f \<and>
               get_rrule_kwargs (PDict r) = Inr kw \<and> v = PDict kw))
       \<and> (\<forall>v. (''attach'', v) \<in> set (properties out) \<longrightarrow>
            (\<exists>e files fs m media. map_of kvs ''event'' = Some (PDict e) \<and>
               map_of e ''files'' = Some files \<and> py_iter files = Inr fs \<and> PDict m \<in> set fs \<and>
               map_of m ''media'' = Some media \<and> py_truthy media \<and> v = url_for env media))
       \<and> (\<forall>v. (''location'', v) \<in> set (properties out) \<longrightarrow>
            (\<exists>locations ls loc. map_of kvs ''location'' = Some locations \<and> py_truthy locations \<and>
               py_iter locations = Inr ls \<and> PDict loc \<in> set ls \<and>
               map_of loc ''name'' = Some v \<and> py_truthy v))
       \<and> (\<forall>v. (''geo'', v) \<in> set (properties out) \<longrightarrow>
            (\<exists>locations ls loc c lat lon. map_of kvs ''location'' = Some locations \<and>
               py_truthy locations \<and> py_iter locations = Inr ls \<and> PDict loc \<in> set ls \<and>
               map_of loc ''location'' = Some (PDict c) \<and> map_of c ''lat'' = Some lat \<and>
               map_of c ''lon'' = Some lon \<and> v = PTuple [lat, lon]))
       \<and> (\<forall>v. (''url'', v) \<in> set (properties out) \<longleftrightarrow>
            (\<exists>e links ls. map_of kvs ''event'' = Some (PDict e) \<and> map_of e ''links'' = Some links \<and>
               py_iter links = Inr ls \<and> v \<in> set ls))
       \<and> (\<forall>v. (''contact'', v) \<in> set (properties out) \<longleftrightarrow>
            (\<exists>e info cs c p. map_of kvs ''event'' = Some (PDict e) \<and>
               map_of e ''event_contact_info'' = Some info \<and> py_iter info = Inr cs \<and>
               PDict c \<in> set cs \<and> map_of c ''public'' = Some p \<and> py_truthy p \<and>
               format_contact env (PDict c) = Inr v))"
proof -
  from format_event_Inr [OF assms] obtain g n s
    where out: "properties out = event_props env kvs g n s"
    by auto
  note names = event_props_mem description_props_mem categories_props_mem opt_prop_mem
    rrule_props_mem attachments_props_mem locations_props_mem location_props_mem
    links_props_mem contacts_props_mem
  have description: "\<forall>v. (''description'', v) \<in> set (properties out) \<longrightarrow>
            map_of kvs ''definition_long'' = Some v \<and> py_truthy v"
    unfolding out by (simp add: names)
  have comment: "\<forall>v. (''comment'', v) \<in> set (properties out) \<longrightarrow>
            map_of kvs ''ednote'' = Some v \<and> py_truthy v"
    unfolding out by (simp add: names)
  have priority: "\<forall>v. (''priority'', v) \<in> set (properties out) \<longrightarrow>
            map_of kvs ''priority'' = Some v \<and> py_truthy v"
    unfolding out by (simp add: names)
  have categories: "\<forall>v. (''categories'', v) \<in> set (properties out) \<longrightarrow>
            (\<exists>calendars cs c. map_of kvs ''calendars'' = Some calendars \<and>
               py_iter calendars = Inr cs \<and> PDict c \<in> set cs \<and>
               map_of c ''name'' = Some v \<and> py_truthy v)"
    unfolding out by (simp add: names)
  have dtend: "\<forall>v. (''dtend'', v) \<in> set (properties out) \<longrightarrow>
            (\<exists>d. map_of kvs ''dates'' = Some (PDict d) \<and> map_of d ''end'' = Some v \<and> py_truthy v)"
    unfolding out by (simp add: names dates_fields_Some)
  have rrule: "\<forall>v. (''rrule'', v) \<in> set (properties out) \<longrightarrow>
            (\<exists>e d r f kw. map_of kvs ''event'' = Some (PDict e) \<and>
               map_of e ''dates'' = Some (PDict d) \<and>
               map_of d ''recurring_rule'' = Some (PDict r) \<and> map_of r ''frequency'' = Some f \<and>
               get_rrule_kwargs (PDict r) = Inr kw \<and> v = PDict kw)"
    unfolding out by (simp add: names)
  have attach: "\<forall>v. (''attach'', v) \<in> set (properties out) \<longrightarrow>
            (\<exists>e files fs m media. map_of kvs ''event'' = Some (PDict e) \<and>
               map_of e ''files'' = Some files \<and> py_iter files = Inr fs \<and> PDict m \<in> set fs \<and>
               map_of m ''media'' = Some media \<and> py_truthy media \<and> v = url_for env media)"
    unfolding out by (simp add: names)
  have location: "\<forall>v. (''location'', v) \<in> set (properties out) \<longrightarrow>
            (\<exists>locations ls loc. map_of kvs ''location'' = Some locations \<and> py_truthy locations \<and>
               py_iter locations = Inr ls \<and> PDict loc \<in> set ls \<and>
               map_of loc ''name'' = Some v \<and> py_truthy v)"
    unfolding out by (simp add: names) blast
  have geo: "\<forall>v. (''geo'', v) \<in> set (properties out) \<longrightarrow>
            (\<exists>locations ls loc c lat lon. map_of kvs ''location'' = Some locations \<and>
               py_truthy locations \<and> py_iter locations = Inr ls \<and> PDict loc \<in> set ls \<and>
               map_of loc ''location'' = Some (PDict c) \<and> map_of c ''lat'' = Some lat \<and>
               map_of c ''lon'' = Some lon \<and> v = PTuple [lat, lon])"
    unfolding out by (simp add: names) blast
  have url: "\<forall>v. (''url'', v) \<in> set (properties out) \<longleftrightarrow>
            (\<exists>e links ls. map_of kvs ''event'' = Some (PDict e) \<and> map_of e ''links'' = Some links \<and>
               py_iter links = Inr ls \<and> v \<in> set ls)"
    unfolding out by (simp add: names)
  have contact: "\<forall>v. (''contact'', v) \<in> set (properties out) \<longleftrightarrow>
            (\<exists>e info cs c p. map_of kvs ''event'' = Some (PDict e) \<and>
               map_of e ''event_contact_info'' = Some info \<and> py_iter info = Inr cs \<and>
               PDict c \<in> set cs \<and> map_of c ''public'' = Some p \<and> py_truthy p \<and>
               format_contact env (PDict c) = Inr v)"
    unfolding out by (simp add: names)
  from description comment priority categories dtend rrule attach location geo url contact
  show ?thesis by (intro conjI)
qed

theorem optional_properties_sources_witness:
  "(\<exists>out. format_event example_collaborators (PDict example_fields) = Inr out \<and>
      (''description'', PStr ''Monthly meeting of the council'') \<in> set (properties out) \<and>
      (''url'', PStr []) \<in> set (properties out) \<and>
      (''contact'', PStr []) \<in> set (properties out))
   \<and> map_of example_fields ''definition_long'' = Some (PStr ''Monthly meeting of the council'')
   \<and> py_truthy (PStr ''Monthly meeting of the council'')
   \<and> (\<exists>e links ls. map_of example_fields ''event'' = Some (PDict e) \<and>
         map_of e ''links'' = Some links \<and> py_iter links = Inr ls \<and> PStr [] \<in> set ls)
   \<and> (\<exists>e info cs c p. map_of example_fields ''event'' = Some (PDict e) \<and>
         map_of e ''event_contact_info'' = Some info \<and> py_iter info = Inr cs \<and>
         PDict c \<in> set cs \<and> map_of c ''public'' = Some p \<and> py_truthy p \<and>
         format_contact example_collaborators (PDict c) = Inr (PStr []))"
proof -
  note run = format_event_example
  note sources = optional_properties_sources [OF run]
  from run have out: "\<exists>out. format_event example_collaborators (PDict example_fields) = Inr out \<and>
      (''description'', PStr ''Monthly meeting of the council'') \<in> set (properties out) \<and>
      (''url'', PStr []) \<in> set (properties out) \<and>
      (''contact'', PStr []) \<in> set (properties out)"
    by (simp add: example_event_def)
  from sources have "\<forall>v. (''description'', v) \<in> set (properties example_event) \<longrightarrow>
            map_of example_fields ''definition_long'' = Some v \<and> py_truthy v"
    by (elim conjE)
  then have description:
    "map_of example_fields ''definition_long'' = Some (PStr ''Monthly meeting of the council'')
     \<and> py_truthy (PStr ''Monthly meeting of the council'')"
    by (simp add: example_event_def)
  from sources have "\<forall>v. (''url'', v) \<in> set (properties example_event) \<longleftrightarrow>
            (\<exists>e links ls. map_of example_fields ''event'' = Some (PDict e) \<and>
               map_of e ''links'' = Some links \<and> py_iter links = Inr ls \<and> v \<in> set ls)"
    by (elim conjE)
  from this [rule_format, of "PStr []"]
  have url: "\<exists>e links ls. map_of example_fields ''event'' = Some (PDict e) \<and>
         map_of e ''links'' = Some links \<and> py_iter links = Inr ls \<and> PStr [] \<in> set ls"
    by (simp add: example_event_def)
  from sources have "\<forall>v. (''contact'', v) \<in> set (properties example_event) \<longleftrightarrow>
            (\<exists>e info cs c p. map_of example_fields ''event'' = Some (PDict e) \<and>
               map_of e ''event_contact_info'' = Some info \<and> py_iter info = Inr cs \<and>
               PDict c \<in> set cs \<and> map_of c ''public'' = Some p \<and> py_truthy p \<and>
               format_contact example_collaborators (PDict c) = Inr v)"
    by (elim conjE)
  from this [rule_format, of "PStr []"]
  have contact: "\<exists>e info cs c p. map_of example_fields ''event'' = Some (PDict e) \<and>
         map_of e ''event_contact_info'' = Some info \<and> py_iter info = Inr cs \<and>
         PDict c \<in> set cs \<and> map_of c ''public'' = Some p \<and> py_truthy p \<and>
         format_contact example_collaborators (PDict c) = Inr (PStr [])"
    by (simp add: example_event_def)
  from out description url contact show ?thesis by (intro conjI) simp_all
qed

end
